theory Spec2Isabelle
  imports Main "HOL-Library.Word"
begin

section \<open>Values, receipts and errors\<close>

text \<open>
  The helper \<^verbatim>\<open>lib/helper/User.js\<close> hands JavaScript values to the web3 library:
  address strings, numbers, hex byte strings and arrays of these. An address is a 160-bit
  word, a byte an 8-bit word.
\<close>

type_synonym byte = "8 word"
type_synonym bytes = "byte list"
type_synonym address = "160 word"

datatype js_value =
    JsAddress address
  | JsNumber int
  | JsBytes bytes
  | JsArray "js_value list"

text \<open>A decoded event of a receipt: its name and its named return values.\<close>

record event_log =
  event_name :: string
  returnValues :: "(string \<times> js_value) list"

text \<open>
  The transaction receipt (section 3 of the specification): the status flag, the emitted
  events and the contract address when the transaction created a contract.
\<close>

record receipt =
  status :: bool
  events :: "event_log list"
  contractAddress :: "address option"

text \<open>
  The error taxonomy of section 7 of the specification, and the \<^verbatim>\<open>TypeError\<close> that
  JavaScript raises when a contract object has no method of the name that is called.
  Errors that the web3 library raises for malformed arguments are \<open>ValidationError\<close>s.
\<close>

datatype error =
    ValidationError string
  | NotFoundError string
  | TypeError string
  | SubmissionError string
  | RevertError receipt

section \<open>The contract ABI encoding of the web3 library\<close>

text \<open>
  Modelled from the spec: the web3 library (\<^verbatim>\<open>web3.eth.abi\<close>,
  \<^verbatim>\<open>web3.eth.Contract\<close>) is an external collaborator and is not part of the
  sources. Section 6 of the specification fixes its encoding: the standard ABI
  function-selector and argument encoding, a 4-byte selector, 32-byte-aligned argument
  words, dynamic types length-prefixed. The definitions of this section write that
  encoding out for the argument types that User.js uses.
\<close>

datatype abi_type = TAddress | TUint256 | TBytes | TArray abi_type

fun typeName :: "abi_type \<Rightarrow> string" where
  "typeName TAddress = ''address''"
| "typeName TUint256 = ''uint256''"
| "typeName TBytes = ''bytes''"
| "typeName (TArray t) = typeName t @ ''[]''"

fun isDynamic :: "abi_type \<Rightarrow> bool" where
  "isDynamic TBytes = True"
| "isDynamic (TArray t) = True"
| "isDynamic t = False"

text \<open>One input of a function of a JSON interface, and one entry of a JSON interface.\<close>

record abi_input =
  input_type :: abi_type
  input_name :: string

datatype abi_entry_type = Function | Event | Constructor

record abi_entry =
  name :: string
  entry_type :: abi_entry_type
  inputs :: "abi_input list"

type_synonym json_interface = "abi_entry list"

text \<open>The big-endian 32-byte word of a number (taken modulo \<open>2 ^ 256\<close>).\<close>

definition uint256_word :: "nat \<Rightarrow> bytes" where
  "uint256_word n = map (\<lambda>i. of_nat (n div 256 ^ (31 - i))) [0..<32]"

text \<open>A byte string, zero-padded on the right to a multiple of 32 bytes.\<close>

definition pad_right :: "bytes \<Rightarrow> bytes" where
  "pad_right b = b @ replicate ((32 - length b mod 32) mod 32) 0"

text \<open>The first error of a list of results, or all the values.\<close>

fun sequence :: "(error + 'a) list \<Rightarrow> error + 'a list" where
  "sequence [] = Inr []"
| "sequence (Inl e # rs) = Inl e"
| "sequence (Inr x # rs) = (case sequence rs of Inl e \<Rightarrow> Inl e | Inr xs \<Rightarrow> Inr (x # xs))"

text \<open>
  Head and tail of a tuple of encoded components: a static component stands in the head,
  a dynamic one leaves its offset there and stands in the tail.
\<close>

fun encodeHeads :: "nat \<Rightarrow> (bool \<times> bytes) list \<Rightarrow> bytes" where
  "encodeHeads off [] = []"
| "encodeHeads off ((dyn, enc) # ps) =
     (if dyn then uint256_word off @ encodeHeads (off + length enc) ps
      else enc @ encodeHeads off ps)"

definition encodeTails :: "(bool \<times> bytes) list \<Rightarrow> bytes" where
  "encodeTails ps = concat (map snd (filter fst ps))"

definition encodeTuple :: "(bool \<times> bytes) list \<Rightarrow> bytes" where
  "encodeTuple ps = encodeHeads (32 * length ps) ps @ encodeTails ps"

text \<open>
  The encoding of one value at one type. A number outside the range of \<open>uint256\<close> and a
  value of the wrong kind are rejected.
\<close>

fun encodeValue :: "abi_type \<Rightarrow> js_value \<Rightarrow> error + bytes" where
  "encodeValue TAddress (JsAddress a) = Inr (uint256_word (unat a))"
| "encodeValue TUint256 (JsNumber n) =
     (if 0 \<le> n \<and> n < 2 ^ 256 then Inr (uint256_word (nat n))
      else Inl (ValidationError ''value out-of-bounds''))"
| "encodeValue TBytes (JsBytes b) = Inr (uint256_word (length b) @ pad_right b)"
| "encodeValue (TArray t) (JsArray vs) =
     (case sequence (map (encodeValue t) vs) of
        Inl e \<Rightarrow> Inl e
      | Inr encs \<Rightarrow>
          Inr (uint256_word (length vs) @ encodeTuple (map (\<lambda>enc. (isDynamic t, enc)) encs)))"
| "encodeValue t v = Inl (ValidationError ''invalid value for type'')"

text \<open>A value that the encoder accepts at a type.\<close>

definition encodes :: "abi_type \<Rightarrow> js_value \<Rightarrow> bool" where
  "encodes t v = (case encodeValue t v of Inl e \<Rightarrow> False | Inr enc \<Rightarrow> True)"

definition encodeParameters :: "abi_type list \<Rightarrow> js_value list \<Rightarrow> error + bytes" where
  "encodeParameters types params =
     (if length types \<noteq> length params
      then Inl (ValidationError ''types/values length mismatch'')
      else case sequence (map (\<lambda>(t, v). encodeValue t v) (zip types params)) of
             Inl e \<Rightarrow> Inl e
           | Inr encs \<Rightarrow> Inr (encodeTuple (zip (map isDynamic types) encs)))"

fun commas :: "string list \<Rightarrow> string" where
  "commas [] = []"
| "commas [x] = x"
| "commas (x # y # zs) = x @ '','' @ commas (y # zs)"

definition functionSignature :: "abi_entry \<Rightarrow> string" where
  "functionSignature f =
     name f @ ''('' @ commas (map (\<lambda>i. typeName (input_type i)) (inputs f)) @ '')''"

text \<open>
  The web3 object: its Keccak-256 hash of a string (\<^verbatim>\<open>web3.utils.sha3\<close>), and the
  node it is connected to. The node answers a gas estimate, and answers a submitted
  transaction, given the requests it has seen before, by rejecting it, by mining it
  with a receipt, or never.
\<close>

record tx_call =
  call_from :: "address option"
  call_to :: address
  call_data :: bytes
  call_gas :: "nat option"
  call_gasPrice :: "nat option"
  call_value :: "nat option"

datatype rpc_request = EthEstimateGas tx_call | EthSendTransaction tx_call

datatype node_reply = Rejected string | Mined receipt | NeverMined

record node =
  estimateGas :: "tx_call \<Rightarrow> nat"
  sendTransaction :: "rpc_request list \<Rightarrow> tx_call \<Rightarrow> node_reply"

record Web3 =
  sha3 :: "string \<Rightarrow> bytes"
  currentProvider :: node

definition encodeFunctionSignature :: "Web3 \<Rightarrow> abi_entry \<Rightarrow> bytes" where
  "encodeFunctionSignature web3 f = take 4 (sha3 web3 (functionSignature f))"

definition encodeFunctionCall :: "Web3 \<Rightarrow> abi_entry \<Rightarrow> js_value list \<Rightarrow> error + bytes" where
  "encodeFunctionCall web3 jsonInterface params =
     (case encodeParameters (map input_type (inputs jsonInterface)) params of
        Inl e \<Rightarrow> Inl e
      | Inr enc \<Rightarrow> Inr (encodeFunctionSignature web3 jsonInterface @ enc))"

text \<open>
  A contract object \<^verbatim>\<open>new web3.eth.Contract(jsonInterface, address)\<close>, and the
  transaction object that \<^verbatim>\<open>contract.methods.name(...arguments)\<close> returns: the
  library looks the function up by name and number of arguments and encodes nothing yet.
\<close>

record Contract =
  contract_web3 :: Web3
  contract_jsonInterface :: json_interface
  contract_address :: address

definition Contract_new :: "Web3 \<Rightarrow> json_interface \<Rightarrow> address \<Rightarrow> Contract" where
  "Contract_new web3 jsonInterface addr =
     \<lparr>contract_web3 = web3, contract_jsonInterface = jsonInterface, contract_address = addr\<rparr>"

record tx_object =
  parent :: Contract
  abi_method :: abi_entry
  arguments :: "js_value list"

definition methods :: "Contract \<Rightarrow> string \<Rightarrow> js_value list \<Rightarrow> error + tx_object" where
  "methods c nm args =
     (case filter (\<lambda>f. entry_type f = Function \<and> name f = nm) (contract_jsonInterface c) of
        [] \<Rightarrow> Inl (TypeError (nm @ '' is not a function''))
      | f # fs \<Rightarrow>
          (case find (\<lambda>g. length (inputs g) = length args) (f # fs) of
             None \<Rightarrow> Inl (ValidationError (''Invalid number of parameters for '' @ nm))
           | Some g \<Rightarrow> Inr \<lparr>parent = c, abi_method = g, arguments = args\<rparr>))"

definition encodeABI :: "tx_object \<Rightarrow> error + bytes" where
  "encodeABI tx =
     encodeFunctionCall (contract_web3 (parent tx)) (abi_method tx) (arguments tx)"

section \<open>Running a method: outcomes and the state it runs in\<close>

text \<open>
  A call returns a value, raises an error (a rejected promise, for the asynchronous
  methods), or stays pending for ever when the node never mines the transaction. It runs
  in a state: the object \<^verbatim>\<open>this\<close> of the method (\<^verbatim>\<open>oThis\<close> in the sources),
  whose fields a method could assign, and the RPC requests issued to the node so far.
\<close>

datatype 'a outcome = Returns 'a | Raises error | Pending

record 'self js_state =
  oThis :: 'self
  requests :: "rpc_request list"

type_synonym ('self, 'a) js = "'self js_state \<Rightarrow> 'a outcome \<times> 'self js_state"

definition js_return :: "'a \<Rightarrow> ('self, 'a) js" where
  "js_return x s = (Returns x, s)"

definition js_bind :: "('self, 'a) js \<Rightarrow> ('a \<Rightarrow> ('self, 'b) js) \<Rightarrow> ('self, 'b) js" where
  "js_bind m f s =
     (case m s of
        (Returns x, s') \<Rightarrow> f x s'
      | (Raises e, s') \<Rightarrow> (Raises e, s')
      | (Pending, s') \<Rightarrow> (Pending, s'))"

text \<open>A library call that returns or throws, and the read of \<^verbatim>\<open>this\<close>.\<close>

definition js_of :: "error + 'a \<Rightarrow> ('self, 'a) js" where
  "js_of r s = (case r of Inl e \<Rightarrow> (Raises e, s) | Inr x \<Rightarrow> (Returns x, s))"

definition js_this :: "('self, 'self) js" where
  "js_this s = (Returns (oThis s), s)"

text \<open>The transactions among a list of RPC requests, in order.\<close>

fun sentTransactions :: "rpc_request list \<Rightarrow> tx_call list" where
  "sentTransactions [] = []"
| "sentTransactions (EthSendTransaction c # rs) = c # sentTransactions rs"
| "sentTransactions (EthEstimateGas c # rs) = sentTransactions rs"

section \<open>The ABI registry and the transaction sender\<close>

text \<open>
  Modelled from the spec: \<^verbatim>\<open>lib/AbiBinProvider.js\<close> is not part of the sources.
  Section 4.1 of the specification: \<^verbatim>\<open>getABI(name)\<close> gives the interface description
  registered under a contract name and fails with \<^verbatim>\<open>NotFoundError\<close> when the name is
  unregistered; it has no side effect. The artifacts bundled with the SDK are a
  parameter of the constructor here.
\<close>

record AbiBinProvider =
  abi_of :: "string \<Rightarrow> json_interface option"
  bin_of :: "string \<Rightarrow> bytes option"

definition getABI :: "AbiBinProvider \<Rightarrow> string \<Rightarrow> error + json_interface" where
  "getABI provider contractName =
     (case abi_of provider contractName of
        None \<Rightarrow> Inl (NotFoundError contractName)
      | Some abi \<Rightarrow> Inr abi)"

definition getBIN :: "AbiBinProvider \<Rightarrow> string \<Rightarrow> error + bytes" where
  "getBIN provider contractName =
     (case bin_of provider contractName of
        None \<Rightarrow> Inl (NotFoundError contractName)
      | Some bin \<Rightarrow> Inr bin)"

text \<open>The options of a transaction: \<^verbatim>\<open>{from, gas, gasPrice, value}\<close>.\<close>

record tx_options =
  tx_from :: "address option"
  gas :: "nat option"
  gasPrice :: "nat option"
  tx_value :: "nat option"

text \<open>
  Modelled from the spec: \<^verbatim>\<open>utils/TxSender.js\<close> is not part of the sources.
  Section 4.2 of the specification: the sender estimates the gas or accepts the gas the
  caller provides, submits the transaction to the node once, awaits until it is mined
  and returns the receipt; it fails with \<^verbatim>\<open>SubmissionError\<close> if the node rejects the
  transaction and with \<^verbatim>\<open>RevertError\<close> if the receipt's status indicates a revert;
  there is no retry. The call data of the transaction object is encoded before anything
  is sent, and an error of the encoding is raised with nothing sent.
\<close>

record TxSender =
  txObject :: tx_object
  sender_web3 :: Web3
  txOptions :: tx_options

definition TxSender_new :: "tx_object \<Rightarrow> Web3 \<Rightarrow> tx_options \<Rightarrow> TxSender" where
  "TxSender_new tx web3 opts = \<lparr>txObject = tx, sender_web3 = web3, txOptions = opts\<rparr>"

definition rawCall :: "TxSender \<Rightarrow> bytes \<Rightarrow> tx_call" where
  "rawCall t callData =
     \<lparr>call_from = tx_from (txOptions t),
      call_to = contract_address (parent (txObject t)),
      call_data = callData,
      call_gas = gas (txOptions t),
      call_gasPrice = gasPrice (txOptions t),
      call_value = tx_value (txOptions t)\<rparr>"

definition awaitReceipt :: "node_reply \<Rightarrow> ('self, receipt) js" where
  "awaitReceipt reply s =
     (case reply of
        Rejected msg \<Rightarrow> (Raises (SubmissionError msg), s)
      | Mined r \<Rightarrow> (if status r then (Returns r, s) else (Raises (RevertError r), s))
      | NeverMined \<Rightarrow> (Pending, s))"

definition withGas :: "TxSender \<Rightarrow> tx_call \<Rightarrow> ('self, tx_call) js" where
  "withGas t c s =
     (case call_gas c of
        Some g \<Rightarrow> (Returns c, s)
      | None \<Rightarrow>
          (Returns (c\<lparr>call_gas := Some (estimateGas (currentProvider (sender_web3 t)) c)\<rparr>),
           s\<lparr>requests := requests s @ [EthEstimateGas c]\<rparr>))"

definition submit :: "TxSender \<Rightarrow> tx_call \<Rightarrow> ('self, node_reply) js" where
  "submit t c s =
     (Returns (sendTransaction (currentProvider (sender_web3 t)) (requests s) c),
      s\<lparr>requests := requests s @ [EthSendTransaction c]\<rparr>)"

definition TxSender_execute :: "TxSender \<Rightarrow> ('self, receipt) js" where
  "TxSender_execute t =
     js_bind (js_of (encodeABI (txObject t))) (\<lambda>callData.
     js_bind (withGas t (rawCall t callData)) (\<lambda>c.
     js_bind (submit t c) (\<lambda>reply.
     awaitReceipt reply)))"

section \<open>The User helper (lib/helper/User.js)\<close>

definition UserWalletFactoryContractName :: string where
  "UserWalletFactoryContractName = ''UserWalletFactory''"

definition ProxyFactoryContractName :: string where
  "ProxyFactoryContractName = ''ProxyFactory''"

definition THMasterCopyContractName :: string where
  "THMasterCopyContractName = ''TokenHolder''"

record User =
  gnosisSafeMasterCopy :: address
  tokenHolderMasterCopy :: address
  eip20Token :: address
  tokenRules :: address
  userWalletFactoryAddress :: address
  auxiliaryWeb3 :: Web3
  abiBinProvider :: AbiBinProvider

text \<open>
  The constructor. \<^verbatim>\<open>new AbiBinProvider()\<close> loads the artifacts bundled with the SDK,
  which are the first parameter here.
\<close>

definition User_new ::
  "AbiBinProvider \<Rightarrow> address \<Rightarrow> address \<Rightarrow> address \<Rightarrow> address \<Rightarrow> address \<Rightarrow> Web3 \<Rightarrow> User" where
  "User_new bundled gnosisSafeMasterCopy' tokenHolderMasterCopy' eip20Token' tokenRules'
       userWalletFactoryAddress' auxiliaryWeb3' =
     \<lparr>gnosisSafeMasterCopy = gnosisSafeMasterCopy',
      tokenHolderMasterCopy = tokenHolderMasterCopy',
      eip20Token = eip20Token',
      tokenRules = tokenRules',
      userWalletFactoryAddress = userWalletFactoryAddress',
      auxiliaryWeb3 = auxiliaryWeb3',
      abiBinProvider = bundled\<rparr>"

text \<open>The interface of \<^verbatim>\<open>setup\<close> that \<^verbatim>\<open>getGnosisSafeData\<close> writes inline.\<close>

definition gnosisSafeSetupInterface :: abi_entry where
  "gnosisSafeSetupInterface =
     \<lparr>name = ''setup'',
      entry_type = Function,
      inputs =
        [\<lparr>input_type = TArray TAddress, input_name = ''_owners''\<rparr>,
         \<lparr>input_type = TUint256, input_name = ''_threshold''\<rparr>,
         \<lparr>input_type = TAddress, input_name = ''to''\<rparr>,
         \<lparr>input_type = TBytes, input_name = ''data''\<rparr>]\<rparr>"

definition getGnosisSafeData ::
  "js_value \<Rightarrow> js_value \<Rightarrow> js_value \<Rightarrow> js_value \<Rightarrow> (User, bytes) js" where
  "getGnosisSafeData owners threshold to data =
     js_bind js_this (\<lambda>this.
     js_of (encodeFunctionCall (auxiliaryWeb3 this) gnosisSafeSetupInterface
              [owners, threshold, to, data]))"

definition getTokenHolderSetupExecutableData ::
  "js_value \<Rightarrow> js_value \<Rightarrow> js_value \<Rightarrow> js_value \<Rightarrow> (User, bytes) js" where
  "getTokenHolderSetupExecutableData owner sessionKeys sessionKeysSpendingLimits
       sessionKeysExpirationHeights =
     js_bind js_this (\<lambda>this.
     js_bind (js_of (getABI (abiBinProvider this) THMasterCopyContractName)) (\<lambda>thMasterCopyAbi.
     js_bind (js_of (methods
         (Contract_new (auxiliaryWeb3 this) thMasterCopyAbi (tokenHolderMasterCopy this))
         ''setup''
         [JsAddress (eip20Token this), JsAddress (tokenRules this), owner, sessionKeys,
          sessionKeysSpendingLimits, sessionKeysExpirationHeights])) (\<lambda>setupCall.
     js_of (encodeABI setupCall))))"

text \<open>The private method \<^verbatim>\<open>_createUserWalletRawTx\<close>.\<close>

definition createUserWalletRawTx ::
  "js_value \<Rightarrow> js_value \<Rightarrow> js_value \<Rightarrow> js_value \<Rightarrow> js_value \<Rightarrow> js_value \<Rightarrow> js_value
     \<Rightarrow> (User, tx_object) js" where
  "createUserWalletRawTx owners threshold to data sessionKeys sessionKeysSpendingLimits
       sessionKeysExpirationHeights =
     js_bind (getGnosisSafeData owners threshold to data) (\<lambda>gnosisSafeData.
     js_bind js_this (\<lambda>this.
     js_bind (js_of (getABI (abiBinProvider this) UserWalletFactoryContractName)) (\<lambda>jsonInterface.
     js_of (methods
         (Contract_new (auxiliaryWeb3 this) jsonInterface (userWalletFactoryAddress this))
         ''createUserWallet''
         [JsAddress (gnosisSafeMasterCopy this), JsBytes gnosisSafeData,
          JsAddress (tokenHolderMasterCopy this), JsAddress (eip20Token this),
          JsAddress (tokenRules this), sessionKeys, sessionKeysSpendingLimits,
          sessionKeysExpirationHeights]))))"

text \<open>The private method \<^verbatim>\<open>_createCompanyWalletRawTx\<close>.\<close>

definition createCompanyWalletRawTx ::
  "address \<Rightarrow> js_value \<Rightarrow> js_value \<Rightarrow> js_value \<Rightarrow> js_value \<Rightarrow> (User, tx_object) js" where
  "createCompanyWalletRawTx proxyFactory owner sessionKeys sessionKeysSpendingLimits
       sessionKeysExpirationHeights =
     js_bind (getTokenHolderSetupExecutableData owner sessionKeys sessionKeysSpendingLimits
                sessionKeysExpirationHeights) (\<lambda>thSetupExecutableData.
     js_bind js_this (\<lambda>this.
     js_bind (js_of (getABI (abiBinProvider this) ProxyFactoryContractName)) (\<lambda>jsonInterface.
     js_of (methods
         (Contract_new (auxiliaryWeb3 this) jsonInterface proxyFactory)
         ''createProxy''
         [JsAddress (tokenHolderMasterCopy this), JsBytes thSetupExecutableData]))))"

definition createUserWallet ::
  "js_value \<Rightarrow> js_value \<Rightarrow> js_value \<Rightarrow> js_value \<Rightarrow> js_value \<Rightarrow> js_value \<Rightarrow> js_value
     \<Rightarrow> tx_options \<Rightarrow> (User, receipt) js" where
  "createUserWallet owners threshold to data sessionKeys sessionKeysSpendingLimits
       sessionKeysExpirationHeights options =
     js_bind (createUserWalletRawTx owners threshold to data sessionKeys
                sessionKeysSpendingLimits sessionKeysExpirationHeights) (\<lambda>tx.
     js_bind js_this (\<lambda>this.
     js_bind (TxSender_execute (TxSender_new tx (auxiliaryWeb3 this) options)) (\<lambda>txReceipt.
     js_return txReceipt)))"

definition createCompanyWallet ::
  "address \<Rightarrow> js_value \<Rightarrow> js_value \<Rightarrow> js_value \<Rightarrow> js_value \<Rightarrow> tx_options
     \<Rightarrow> (User, receipt) js" where
  "createCompanyWallet proxyFactory owner sessionKeys sessionKeysSpendingLimits
       sessionKeysExpirationHeights options =
     js_bind (createCompanyWalletRawTx proxyFactory owner sessionKeys
                sessionKeysSpendingLimits sessionKeysExpirationHeights) (\<lambda>tx.
     js_bind js_this (\<lambda>this.
     js_bind (TxSender_execute (TxSender_new tx (auxiliaryWeb3 this) options)) (\<lambda>txReceipt.
     js_return txReceipt)))"

section \<open>The GnosisSafe helper\<close>

text \<open>
  Modelled from the spec: \<^verbatim>\<open>lib/helper/GnosisSafe.js\<close> is not part of the sources;
  only its calls in \<^verbatim>\<open>test/integration/WalletOperations.js\<close> are. Section 4.3 of the
  specification: the owners are stored on-chain as a singly linked list, and
  \<^verbatim>\<open>findPreviousOwner(owners, owner)\<close> names the predecessor of an owner in that list,
  or a sentinel value if the owner is the head. The specification does not give the
  sentinel, which is a field of the helper here, and does not say what happens for an
  address that is not in the list, for which the model raises an error.
  \<^verbatim>\<open>getSafeTxData\<close> builds the typed data of one Safe Transaction from its ten
  arguments, in the order of section 4.3, for the safe of the helper.
\<close>

record GnosisSafe =
  gnosisSafeProxy :: address
  safe_web3 :: Web3
  sentinelOwner :: address

fun previousOwnerFrom :: "address \<Rightarrow> address list \<Rightarrow> address \<Rightarrow> address option" where
  "previousOwnerFrom prev [] owner = None"
| "previousOwnerFrom prev (x # xs) owner =
     (if x = owner then Some prev else previousOwnerFrom x xs owner)"

definition findPreviousOwner :: "address list \<Rightarrow> address \<Rightarrow> (GnosisSafe, address) js" where
  "findPreviousOwner owners owner =
     js_bind js_this (\<lambda>this.
     js_of (case previousOwnerFrom (sentinelOwner this) owners owner of
              None \<Rightarrow> Inl (ValidationError ''owner not found'')
            | Some previous \<Rightarrow> Inr previous))"

text \<open>
  The on-chain list of the owners \<open>[A, B, C]\<close> with sentinel \<open>S\<close>: the successor of
  each node, \<open>S \<mapsto> A\<close>, \<open>A \<mapsto> B\<close>, \<open>B \<mapsto> C\<close>, \<open>C \<mapsto> S\<close>.
\<close>

fun ownerLinks :: "address \<Rightarrow> address \<Rightarrow> address list \<Rightarrow> address \<Rightarrow> address option" where
  "ownerLinks sentinel prev [] = Map.empty(prev \<mapsto> sentinel)"
| "ownerLinks sentinel prev (x # xs) = (ownerLinks sentinel x xs)(prev \<mapsto> x)"

record SafeTx =
  safe_to :: address
  safe_value :: nat
  safe_data :: bytes
  safe_operation :: nat
  safeTxGas :: nat
  baseGas :: nat
  safe_gasPrice :: nat
  gasToken :: address
  refundReceiver :: address
  safe_nonce :: nat

record typed_data =
  verifyingContract :: address
  message :: SafeTx

definition getSafeTxData ::
  "address \<Rightarrow> nat \<Rightarrow> bytes \<Rightarrow> nat \<Rightarrow> nat \<Rightarrow> nat \<Rightarrow> nat \<Rightarrow> address \<Rightarrow> address \<Rightarrow> nat
     \<Rightarrow> (GnosisSafe, typed_data) js" where
  "getSafeTxData to val data operation safeTxGas' baseGas' gasPrice' gasToken' refundReceiver'
       nonce =
     js_bind js_this (\<lambda>this.
     js_return
       \<lparr>verifyingContract = gnosisSafeProxy this,
        message =
          \<lparr>safe_to = to, safe_value = val, safe_data = data, safe_operation = operation,
           safeTxGas = safeTxGas', baseGas = baseGas', safe_gasPrice = gasPrice',
           gasToken = gasToken', refundReceiver = refundReceiver', safe_nonce = nonce\<rparr>\<rparr>)"

text \<open>
  Modelled from the spec: the hash of the typed data is computed by the signer of the
  wallet (\<^verbatim>\<open>signEIP712TypedData\<close>), which is not part of the sources. Section 6 of the
  specification: a deterministic structured hash over a domain-separated struct. The
  model hashes the domain (the verifying contract) and the ten fields of the Safe
  Transaction in the order of section 4.3, each as a 32-byte word and the call data by
  its own hash, with the hash of the web3 object.
\<close>

definition hashBytes :: "Web3 \<Rightarrow> bytes \<Rightarrow> bytes" where
  "hashBytes web3 bs = sha3 web3 (map (\<lambda>b. char_of (unat b)) bs)"

definition encodeSafeTx :: "Web3 \<Rightarrow> SafeTx \<Rightarrow> bytes" where
  "encodeSafeTx web3 m =
     uint256_word (unat (safe_to m)) @ uint256_word (safe_value m) @
     hashBytes web3 (safe_data m) @ uint256_word (safe_operation m) @
     uint256_word (safeTxGas m) @ uint256_word (baseGas m) @ uint256_word (safe_gasPrice m) @
     uint256_word (unat (gasToken m)) @ uint256_word (unat (refundReceiver m)) @
     uint256_word (safe_nonce m)"

definition structHash :: "Web3 \<Rightarrow> typed_data \<Rightarrow> bytes" where
  "structHash web3 typedData =
     hashBytes web3
       (hashBytes web3 (uint256_word (unat (verifyingContract typedData))) @
        hashBytes web3 (encodeSafeTx web3 (message typedData)))"

section \<open>The bundled interfaces and example data\<close>

text \<open>
  Modelled from the spec: the contract artifacts bundled with the SDK are not part of the
  sources. The interfaces below declare, for each function that User.js calls, the inputs
  in the order and of the kinds that its call site passes, and the event that the
  integration test reads from the receipt.
\<close>

definition userWalletFactoryInterface :: json_interface where
  "userWalletFactoryInterface =
     [\<lparr>name = ''UserWalletCreated'', entry_type = Event,
       inputs =
         [\<lparr>input_type = TAddress, input_name = ''_gnosisSafeProxy''\<rparr>,
          \<lparr>input_type = TAddress, input_name = ''_tokenHolderProxy''\<rparr>]\<rparr>,
      \<lparr>name = ''createUserWallet'', entry_type = Function,
       inputs =
         [\<lparr>input_type = TAddress, input_name = ''_gnosisSafeMasterCopy''\<rparr>,
          \<lparr>input_type = TBytes, input_name = ''_gnosisSafeData''\<rparr>,
          \<lparr>input_type = TAddress, input_name = ''_tokenHolderMasterCopy''\<rparr>,
          \<lparr>input_type = TAddress, input_name = ''_token''\<rparr>,
          \<lparr>input_type = TAddress, input_name = ''_tokenRules''\<rparr>,
          \<lparr>input_type = TArray TAddress, input_name = ''_sessionKeys''\<rparr>,
          \<lparr>input_type = TArray TUint256, input_name = ''_sessionKeysSpendingLimits''\<rparr>,
          \<lparr>input_type = TArray TUint256, input_name = ''_sessionKeysExpirationHeights''\<rparr>]\<rparr>]"

definition proxyFactoryInterface :: json_interface where
  "proxyFactoryInterface =
     [\<lparr>name = ''createProxy'', entry_type = Function,
       inputs =
         [\<lparr>input_type = TAddress, input_name = ''_masterCopy''\<rparr>,
          \<lparr>input_type = TBytes, input_name = ''_data''\<rparr>]\<rparr>]"

definition tokenHolderInterface :: json_interface where
  "tokenHolderInterface =
     [\<lparr>name = ''setup'', entry_type = Function,
       inputs =
         [\<lparr>input_type = TAddress, input_name = ''_token''\<rparr>,
          \<lparr>input_type = TAddress, input_name = ''_tokenRules''\<rparr>,
          \<lparr>input_type = TAddress, input_name = ''_owner''\<rparr>,
          \<lparr>input_type = TArray TAddress, input_name = ''_sessionKeys''\<rparr>,
          \<lparr>input_type = TArray TUint256, input_name = ''_sessionKeysSpendingLimits''\<rparr>,
          \<lparr>input_type = TArray TUint256, input_name = ''_sessionKeysExpirationHeights''\<rparr>]\<rparr>]"

definition bundledArtifacts :: AbiBinProvider where
  "bundledArtifacts =
     \<lparr>abi_of = (\<lambda>contractName.
        if contractName = ''UserWalletFactory'' then Some userWalletFactoryInterface
        else if contractName = ''ProxyFactory'' then Some proxyFactoryInterface
        else if contractName = ''TokenHolder'' then Some tokenHolderInterface
        else None),
      bin_of = (\<lambda>contractName. None)\<rparr>"

text \<open>
  Example data: a hash that is Keccak-256 on the four signatures above, nodes that mine,
  revert and reject every transaction, a User instance, and the arguments of the
  integration test \<^verbatim>\<open>Should create a user wallet\<close>.
\<close>

definition exampleSha3 :: "string \<Rightarrow> bytes" where
  "exampleSha3 text =
     (if text = ''setup(address[],uint256,address,bytes)'' then
        [0x0E, 0xC7, 0x8D, 0x9E, 0x46, 0x48, 0x4C, 0x67, 0x76, 0x35, 0x22, 0x4A, 0xD2, 0x67,
         0xC6, 0x93, 0x6D, 0x55, 0x42, 0x1F, 0xBD, 0xFF, 0x42, 0x59, 0xB3, 0xA9, 0xBD, 0x4E,
         0xDC, 0xBC, 0x5F, 0x97]
      else if text = ''setup(address,address,address,address[],uint256[],uint256[])'' then
        [0x5C, 0x0A, 0x60, 0xF9, 0x3C, 0xEA, 0x13, 0xD8, 0xA5, 0x96, 0x10, 0xC7, 0x02, 0xCB,
         0x08, 0x29, 0xD3, 0xE1, 0x9E, 0x4B, 0xF6, 0xFA, 0xD2, 0x8C, 0xA7, 0xAF, 0xCB, 0x83,
         0xB9, 0x10, 0x37, 0x50]
      else if text =
        ''createUserWallet(address,bytes,address,address,address,address[],uint256[],uint256[])''
      then
        [0xD9, 0x4C, 0x25, 0x29, 0x07, 0xF4, 0xF0, 0x9F, 0x5C, 0x5E, 0x29, 0xC5, 0xF6, 0xE0,
         0x92, 0xF7, 0x6D, 0x82, 0x21, 0x4A, 0x1F, 0xA1, 0x07, 0xFE, 0x70, 0x8A, 0xD9, 0x2D,
         0xCE, 0xE5, 0xAA, 0x69]
      else if text = ''createProxy(address,bytes)'' then
        [0x61, 0xB6, 0x9A, 0xBD, 0x16, 0x1C, 0x28, 0x5A, 0x27, 0x94, 0xC2, 0x9D, 0x16, 0xB4,
         0x4D, 0x2F, 0xF6, 0x7E, 0xA6, 0x75, 0x09, 0x9E, 0x52, 0xB5, 0xE3, 0x6D, 0x92, 0x20,
         0x84, 0xCF, 0xDE, 0x88]
      else replicate 32 0)"

definition minedReceipt :: receipt where
  "minedReceipt =
     \<lparr>status = True,
      events =
        [\<lparr>event_name = ''UserWalletCreated'',
          returnValues =
            [(''_gnosisSafeProxy'', JsAddress 0x51), (''_tokenHolderProxy'', JsAddress 0x52)]\<rparr>],
      contractAddress = None\<rparr>"

definition revertedReceipt :: receipt where
  "revertedReceipt = \<lparr>status = False, events = [], contractAddress = None\<rparr>"

definition miningNode :: node where
  "miningNode =
     \<lparr>estimateGas = (\<lambda>c. 6000000), sendTransaction = (\<lambda>history c. Mined minedReceipt)\<rparr>"

definition revertingNode :: node where
  "revertingNode =
     \<lparr>estimateGas = (\<lambda>c. 6000000), sendTransaction = (\<lambda>history c. Mined revertedReceipt)\<rparr>"

definition rejectingNode :: node where
  "rejectingNode =
     \<lparr>estimateGas = (\<lambda>c. 6000000),
      sendTransaction = (\<lambda>history c. Rejected ''insufficient funds'')\<rparr>"

definition exampleWeb3 :: "node \<Rightarrow> Web3" where
  "exampleWeb3 n = \<lparr>sha3 = exampleSha3, currentProvider = n\<rparr>"

definition exampleUser :: "node \<Rightarrow> User" where
  "exampleUser n = User_new bundledArtifacts 0x11 0x12 0x13 0x14 0x15 (exampleWeb3 n)"

definition exampleState :: "node \<Rightarrow> User js_state" where
  "exampleState n = \<lparr>oThis = exampleUser n, requests = []\<rparr>"

definition exampleOptions :: tx_options where
  "exampleOptions =
     \<lparr>tx_from = Some 0xD0, gas = Some 8000000, gasPrice = Some 0x3B9ACA00, tx_value = None\<rparr>"

definition exampleOwners :: js_value where
  "exampleOwners = JsArray [JsAddress 0xA3, JsAddress 0xA9]"

definition exampleSessionKeys :: js_value where
  "exampleSessionKeys = JsArray [JsAddress 0xA5]"

definition exampleSpendingLimits :: js_value where
  "exampleSpendingLimits = JsArray [JsNumber 1000000]"

definition exampleExpirationHeights :: js_value where
  "exampleExpirationHeights = JsArray [JsNumber 100000000]"

definition exampleSafe :: GnosisSafe where
  "exampleSafe =
     \<lparr>gnosisSafeProxy = 0x51, safe_web3 = exampleWeb3 miningNode, sentinelOwner = 0x1\<rparr>"

text \<open>
  A second instance and state: another safe master copy and another wallet factory, the
  rest of the configuration as in the example, and one request already issued.
\<close>

definition otherState :: "node \<Rightarrow> User js_state" where
  "otherState n =
     \<lparr>oThis = User_new bundledArtifacts 0x21 0x12 0x13 0x14 0x25 (exampleWeb3 n),
      requests = [EthEstimateGas
        \<lparr>call_from = None, call_to = 0x15, call_data = [], call_gas = None,
         call_gasPrice = None, call_value = None\<rparr>]\<rparr>"

text \<open>
  An instance that shares with the example only the hash, the registry, the token
  and the token rules, in a state with other requests; a state of the GnosisSafe helper on
  another node and with another sentinel; a state of the helper of the example; a
  transaction object of the proxy factory; two session keys (next to one spending limit
  and one expiration height); and User instances whose registry holds no contract, or
  the TokenHolder interface only.
\<close>

definition unrelatedState :: "User js_state" where
  "unrelatedState =
     \<lparr>oThis = User_new bundledArtifacts 0x21 0x22 0x13 0x14 0x25 (exampleWeb3 rejectingNode),
      requests = requests (otherState rejectingNode)\<rparr>"

definition otherSafeState :: "GnosisSafe js_state" where
  "otherSafeState =
     \<lparr>oThis = \<lparr>gnosisSafeProxy = 0x51, safe_web3 = exampleWeb3 rejectingNode,
               sentinelOwner = 0x2\<rparr>,
      requests = requests (otherState rejectingNode)\<rparr>"

definition exampleSafeState :: "rpc_request list \<Rightarrow> GnosisSafe js_state" where
  "exampleSafeState rs = \<lparr>oThis = exampleSafe, requests = rs\<rparr>"

definition exampleTx :: tx_object where
  "exampleTx =
     \<lparr>parent = Contract_new (exampleWeb3 rejectingNode) proxyFactoryInterface 0x16,
      abi_method = proxyFactoryInterface ! 0,
      arguments = [JsAddress 0x12, JsBytes []]\<rparr>"

definition twoSessionKeys :: js_value where
  "twoSessionKeys = JsArray [JsAddress 0xA5, JsAddress 0xA6]"

definition emptyRegistryState :: "User js_state" where
  "emptyRegistryState =
     \<lparr>oThis = User_new \<lparr>abi_of = (\<lambda>contractName. None), bin_of = (\<lambda>contractName. None)\<rparr>
        0x11 0x12 0x13 0x14 0x15 (exampleWeb3 miningNode),
      requests = []\<rparr>"

definition tokenHolderOnlyState :: "User js_state" where
  "tokenHolderOnlyState =
     \<lparr>oThis = User_new
        \<lparr>abi_of = (\<lambda>contractName.
           if contractName = ''TokenHolder'' then Some tokenHolderInterface else None),
         bin_of = (\<lambda>contractName. None)\<rparr>
        0x11 0x12 0x13 0x14 0x15 (exampleWeb3 miningNode),
      requests = []\<rparr>"

section \<open>The encoder and the sender\<close>

lemmas js_defs = js_bind_def js_of_def js_this_def js_return_def

lemma length_uint256_word [simp]: "length (uint256_word n) = 32"
  by (simp add: uint256_word_def)

lemma sequence_addresses:
  "sequence (map (encodeValue TAddress) (map JsAddress os)) =
     Inr (map (\<lambda>a. uint256_word (unat a)) os)"
  by (induction os) simp_all

lemma encodeHeads_static: "encodeHeads off (map (\<lambda>enc. (False, enc)) encs) = concat encs"
  by (induction encs) simp_all

lemma encodeTails_static: "encodeTails (map (\<lambda>enc. (False, enc)) encs) = []"
  by (induction encs) (simp_all add: encodeTails_def)

lemma encodeValue_address_array:
  "encodeValue (TArray TAddress) (JsArray (map JsAddress os)) =
     Inr (uint256_word (length os) @ concat (map (\<lambda>a. uint256_word (unat a)) os))"
  by (simp add: sequence_addresses encodeTuple_def encodeHeads_static encodeTails_static
        del: map_map)

lemma length_concat_words:
  "length (concat (map (\<lambda>a. uint256_word (f a)) xs)) = 32 * length xs"
  by (induction xs) simp_all

lemma pad_mod: "(n + (32 - n mod 32) mod 32) mod 32 = (0::nat)"
proof (cases "n mod 32 = 0")
  case True
  then show ?thesis by simp
next
  case False
  define r where "r = n mod 32"
  define q where "q = n div 32"
  have n: "n = 32 * q + r" by (simp add: q_def r_def)
  have r: "r < 32" "0 < r" using False by (simp_all add: r_def)
  then have "(32 - r) mod 32 = 32 - r" by simp
  moreover have "n + (32 - r) = 32 * (q + 1)"
    using r n by simp
  ultimately have "(n + (32 - r) mod 32) mod 32 = (32 * (q + 1)) mod 32" by simp
  then show ?thesis unfolding r_def by (simp del: mult_Suc_right)
qed

lemma length_pad_right: "length (pad_right b) mod 32 = 0"
  by (simp add: pad_right_def pad_mod)

lemma sentTransactions_append:
  "sentTransactions (xs @ ys) = sentTransactions xs @ sentTransactions ys"
  by (induction xs rule: sentTransactions.induct) simp_all

lemma TxSender_execute_encoding_error:
  "encodeABI (txObject t) = Inl e \<Longrightarrow> TxSender_execute t s = (Raises e, s)"
  by (simp add: TxSender_execute_def js_defs)

lemma TxSender_execute_sent:
  assumes "encodeABI (txObject t) = Inr callData"
  shows "\<exists>c history.
      snd (TxSender_execute t s) = s\<lparr>requests := history @ [EthSendTransaction c]\<rparr> \<and>
      sentTransactions history = sentTransactions (requests s) \<and>
      call_to c = contract_address (parent (txObject t)) \<and>
      call_data c = callData \<and>
      call_from c = tx_from (txOptions t) \<and>
      fst (TxSender_execute t s) =
        (case sendTransaction (currentProvider (sender_web3 t)) history c of
           Rejected msg \<Rightarrow> Raises (SubmissionError msg)
         | Mined r \<Rightarrow> if status r then Returns r else Raises (RevertError r)
         | NeverMined \<Rightarrow> Pending)"
proof (cases "gas (txOptions t)")
  case None
  let ?raw = "rawCall t callData"
  let ?c = "?raw\<lparr>call_gas := Some (estimateGas (currentProvider (sender_web3 t)) ?raw)\<rparr>"
  let ?h = "requests s @ [EthEstimateGas ?raw]"
  from None have gasNone: "call_gas ?raw = None"
    by (simp add: rawCall_def)
  have run: "TxSender_execute t s =
      awaitReceipt (sendTransaction (currentProvider (sender_web3 t)) ?h ?c)
        (s\<lparr>requests := ?h @ [EthSendTransaction ?c]\<rparr>)"
    using assms gasNone
    by (simp add: TxSender_execute_def js_bind_def js_of_def withGas_def submit_def)
  show ?thesis
  proof (intro exI conjI)
    show "snd (TxSender_execute t s) = s\<lparr>requests := ?h @ [EthSendTransaction ?c]\<rparr>"
      by (simp add: run awaitReceipt_def split: node_reply.splits)
    show "sentTransactions ?h = sentTransactions (requests s)"
      by (simp add: sentTransactions_append)
    show "call_to ?c = contract_address (parent (txObject t))"
      by (simp add: rawCall_def)
    show "call_data ?c = callData"
      by (simp add: rawCall_def)
    show "call_from ?c = tx_from (txOptions t)"
      by (simp add: rawCall_def)
    show "fst (TxSender_execute t s) =
        (case sendTransaction (currentProvider (sender_web3 t)) ?h ?c of
           Rejected msg \<Rightarrow> Raises (SubmissionError msg)
         | Mined r \<Rightarrow> if status r then Returns r else Raises (RevertError r)
         | NeverMined \<Rightarrow> Pending)"
      by (simp add: run awaitReceipt_def split: node_reply.splits)
  qed
next
  case (Some g)
  let ?c = "rawCall t callData"
  let ?h = "requests s"
  from Some have gasSome: "call_gas ?c = Some g"
    by (simp add: rawCall_def)
  have run: "TxSender_execute t s =
      awaitReceipt (sendTransaction (currentProvider (sender_web3 t)) ?h ?c)
        (s\<lparr>requests := ?h @ [EthSendTransaction ?c]\<rparr>)"
    using assms gasSome
    by (simp add: TxSender_execute_def js_bind_def js_of_def withGas_def submit_def)
  show ?thesis
  proof (intro exI conjI)
    show "snd (TxSender_execute t s) = s\<lparr>requests := ?h @ [EthSendTransaction ?c]\<rparr>"
      by (simp add: run awaitReceipt_def split: node_reply.splits)
    show "sentTransactions ?h = sentTransactions (requests s)"
      by simp
    show "call_to ?c = contract_address (parent (txObject t))"
      by (simp add: rawCall_def)
    show "call_data ?c = callData"
      by (simp add: rawCall_def)
    show "call_from ?c = tx_from (txOptions t)"
      by (simp add: rawCall_def)
    show "fst (TxSender_execute t s) =
        (case sendTransaction (currentProvider (sender_web3 t)) ?h ?c of
           Rejected msg \<Rightarrow> Raises (SubmissionError msg)
         | Mined r \<Rightarrow> if status r then Returns r else Raises (RevertError r)
         | NeverMined \<Rightarrow> Pending)"
      by (simp add: run awaitReceipt_def split: node_reply.splits)
  qed
qed

section \<open>The methods of User as results and states\<close>

lemma js_of_state: "snd (js_of r s) = s"
  by (simp add: js_of_def split: sum.splits)

lemma js_this_state: "snd (js_this s) = s"
  by (simp add: js_this_def)

lemma js_bind_state:
  assumes "\<And>s. snd (m s) = s" and "\<And>x s. snd (f x s) = s"
  shows "snd (js_bind m f s) = s"
proof -
  obtain r s' where ms: "m s = (r, s')" by (cases "m s")
  with assms(1) [of s] have "s' = s" by simp
  with ms assms(2) show ?thesis
    by (cases r) (simp_all add: js_bind_def)
qed

lemma js_bind_oThis:
  assumes "\<And>s. oThis (snd (m s)) = oThis s" and "\<And>x s. oThis (snd (f x s)) = oThis s"
  shows "oThis (snd (js_bind m f s)) = oThis s"
proof -
  obtain r s' where ms: "m s = (r, s')" by (cases "m s")
  with assms(1) [of s] have "oThis s' = oThis s" by simp
  with ms assms(2) [of _ s'] show ?thesis
    by (cases r) (simp_all add: js_bind_def)
qed

lemma getGnosisSafeData_run:
  "getGnosisSafeData owners threshold to data s =
     js_of (encodeFunctionCall (auxiliaryWeb3 (oThis s)) gnosisSafeSetupInterface
              [owners, threshold, to, data]) s"
  by (simp add: getGnosisSafeData_def js_bind_def js_this_def)

lemma getGnosisSafeData_state: "snd (getGnosisSafeData owners threshold to data s) = s"
  by (simp add: getGnosisSafeData_run js_of_state)

lemma getTokenHolderSetupExecutableData_state:
  "snd (getTokenHolderSetupExecutableData owner ks ls hs s) = s"
  unfolding getTokenHolderSetupExecutableData_def
  by (intro js_bind_state js_this_state js_of_state)

lemma createUserWalletRawTx_state:
  "snd (createUserWalletRawTx owners threshold to data ks ls hs s) = s"
  unfolding createUserWalletRawTx_def
  by (intro js_bind_state js_this_state js_of_state getGnosisSafeData_state)

lemma createCompanyWalletRawTx_state:
  "snd (createCompanyWalletRawTx pf owner ks ls hs s) = s"
  unfolding createCompanyWalletRawTx_def
  by (intro js_bind_state js_this_state js_of_state getTokenHolderSetupExecutableData_state)

lemma TxSender_execute_oThis: "oThis (snd (TxSender_execute t s)) = oThis s"
  unfolding TxSender_execute_def
  apply (intro js_bind_oThis)
     apply (simp add: js_of_state)
    apply (simp add: withGas_def split: option.splits)
   apply (simp add: submit_def)
  apply (simp add: awaitReceipt_def split: node_reply.splits)
  done

lemma js_bind_sender:
  assumes "m s = (r, s)"
  shows "js_bind m (\<lambda>tx. js_bind js_this (\<lambda>this.
           js_bind (TxSender_execute (TxSender_new tx (auxiliaryWeb3 this) options))
             (\<lambda>txReceipt. js_return txReceipt))) s =
     (case r of
        Returns tx \<Rightarrow> TxSender_execute (TxSender_new tx (auxiliaryWeb3 (oThis s)) options) s
      | Raises e \<Rightarrow> (Raises e, s)
      | Pending \<Rightarrow> (Pending, s))"
proof (cases r)
  case (Returns tx)
  obtain r2 s2 where
    "TxSender_execute (TxSender_new tx (auxiliaryWeb3 (oThis s)) options) s = (r2, s2)"
    by (cases "TxSender_execute (TxSender_new tx (auxiliaryWeb3 (oThis s)) options) s")
  with assms Returns show ?thesis
    by (cases r2) (simp_all add: js_defs)
next
  case (Raises e)
  with assms show ?thesis by (simp add: js_defs)
next
  case Pending
  with assms show ?thesis by (simp add: js_defs)
qed

lemma createUserWallet_run:
  "createUserWallet owners threshold to data ks ls hs options s =
     (case fst (createUserWalletRawTx owners threshold to data ks ls hs s) of
        Returns tx \<Rightarrow> TxSender_execute (TxSender_new tx (auxiliaryWeb3 (oThis s)) options) s
      | Raises e \<Rightarrow> (Raises e, s)
      | Pending \<Rightarrow> (Pending, s))"
proof -
  have "createUserWalletRawTx owners threshold to data ks ls hs s =
      (fst (createUserWalletRawTx owners threshold to data ks ls hs s), s)"
    using createUserWalletRawTx_state [of owners threshold to data ks ls hs s]
    by (cases "createUserWalletRawTx owners threshold to data ks ls hs s") simp
  then show ?thesis
    unfolding createUserWallet_def by (rule js_bind_sender)
qed

lemma createCompanyWallet_run:
  "createCompanyWallet pf owner ks ls hs options s =
     (case fst (createCompanyWalletRawTx pf owner ks ls hs s) of
        Returns tx \<Rightarrow> TxSender_execute (TxSender_new tx (auxiliaryWeb3 (oThis s)) options) s
      | Raises e \<Rightarrow> (Raises e, s)
      | Pending \<Rightarrow> (Pending, s))"
proof -
  have "createCompanyWalletRawTx pf owner ks ls hs s =
      (fst (createCompanyWalletRawTx pf owner ks ls hs s), s)"
    using createCompanyWalletRawTx_state [of pf owner ks ls hs s]
    by (cases "createCompanyWalletRawTx pf owner ks ls hs s") simp
  then show ?thesis
    unfolding createCompanyWallet_def by (rule js_bind_sender)
qed

lemma createUserWallet_oThis:
  "oThis (snd (createUserWallet owners threshold to data ks ls hs options s)) = oThis s"
  by (simp add: createUserWallet_run TxSender_execute_oThis split: outcome.splits)

lemma createCompanyWallet_oThis:
  "oThis (snd (createCompanyWallet pf owner ks ls hs options s)) = oThis s"
  by (simp add: createCompanyWallet_run TxSender_execute_oThis split: outcome.splits)

lemma find_Some_set: "find P xs = Some x \<Longrightarrow> x \<in> set xs \<and> P x"
  by (induction xs) (auto split: if_splits)

lemma methods_Inr:
  assumes "methods c nm args = Inr tx"
  shows "parent tx = c \<and> name (abi_method tx) = nm \<and> arguments tx = args \<and>
    entry_type (abi_method tx) = Function \<and> length (inputs (abi_method tx)) = length args \<and>
    abi_method tx \<in> set (contract_jsonInterface c)"
proof -
  let ?fs = "filter (\<lambda>f. entry_type f = Function \<and> name f = nm) (contract_jsonInterface c)"
  from assms obtain g where
    found: "find (\<lambda>g. length (inputs g) = length args) ?fs = Some g"
    and tx: "tx = \<lparr>parent = c, abi_method = g, arguments = args\<rparr>"
    by (auto simp: methods_def split: list.splits option.splits)
  from found have "g \<in> set ?fs" and "length (inputs g) = length args"
    by (auto dest: find_Some_set)
  with tx show ?thesis by simp
qed

lemma getTokenHolderSetupExecutableData_run:
  "fst (getTokenHolderSetupExecutableData owner ks ls hs s) =
     (case getABI (abiBinProvider (oThis s)) THMasterCopyContractName of
        Inl e \<Rightarrow> Raises e
      | Inr thMasterCopyAbi \<Rightarrow>
          (case methods
               (Contract_new (auxiliaryWeb3 (oThis s)) thMasterCopyAbi
                  (tokenHolderMasterCopy (oThis s)))
               ''setup''
               [JsAddress (eip20Token (oThis s)), JsAddress (tokenRules (oThis s)), owner, ks,
                ls, hs] of
             Inl e \<Rightarrow> Raises e
           | Inr setupCall \<Rightarrow>
               (case encodeABI setupCall of Inl e \<Rightarrow> Raises e | Inr d \<Rightarrow> Returns d)))"
  by (simp add: getTokenHolderSetupExecutableData_def js_defs split: sum.splits)

lemma createUserWalletRawTx_run:
  "fst (createUserWalletRawTx owners threshold to data ks ls hs s) =
     (case encodeFunctionCall (auxiliaryWeb3 (oThis s)) gnosisSafeSetupInterface
             [owners, threshold, to, data] of
        Inl e \<Rightarrow> Raises e
      | Inr gnosisSafeData \<Rightarrow>
          (case getABI (abiBinProvider (oThis s)) UserWalletFactoryContractName of
             Inl e \<Rightarrow> Raises e
           | Inr jsonInterface \<Rightarrow>
               (case methods
                    (Contract_new (auxiliaryWeb3 (oThis s)) jsonInterface
                       (userWalletFactoryAddress (oThis s)))
                    ''createUserWallet''
                    [JsAddress (gnosisSafeMasterCopy (oThis s)), JsBytes gnosisSafeData,
                     JsAddress (tokenHolderMasterCopy (oThis s)), JsAddress (eip20Token (oThis s)),
                     JsAddress (tokenRules (oThis s)), ks, ls, hs] of
                  Inl e \<Rightarrow> Raises e
                | Inr tx \<Rightarrow> Returns tx)))"
  by (simp add: createUserWalletRawTx_def getGnosisSafeData_def js_defs split: sum.splits)

lemma createCompanyWalletRawTx_run:
  "fst (createCompanyWalletRawTx pf owner ks ls hs s) =
     (case fst (getTokenHolderSetupExecutableData owner ks ls hs s) of
        Raises e \<Rightarrow> Raises e
      | Pending \<Rightarrow> Pending
      | Returns thSetupExecutableData \<Rightarrow>
          (case getABI (abiBinProvider (oThis s)) ProxyFactoryContractName of
             Inl e \<Rightarrow> Raises e
           | Inr jsonInterface \<Rightarrow>
               (case methods (Contract_new (auxiliaryWeb3 (oThis s)) jsonInterface pf)
                    ''createProxy''
                    [JsAddress (tokenHolderMasterCopy (oThis s)), JsBytes thSetupExecutableData] of
                  Inl e \<Rightarrow> Raises e
                | Inr tx \<Rightarrow> Returns tx)))"
proof -
  have st: "getTokenHolderSetupExecutableData owner ks ls hs s =
      (fst (getTokenHolderSetupExecutableData owner ks ls hs s), s)"
    using getTokenHolderSetupExecutableData_state [of owner ks ls hs s]
    by (cases "getTokenHolderSetupExecutableData owner ks ls hs s") simp
  show ?thesis
    unfolding createCompanyWalletRawTx_def
    by (subst js_bind_def, subst st)
      (simp add: js_defs split: outcome.splits sum.splits)
qed

lemma encodesE:
  assumes "encodes t v"
  obtains enc where "encodeValue t v = Inr enc"
  using assms by (cases "encodeValue t v") (simp_all add: encodes_def)

lemma getGnosisSafeData_wellformed:
  assumes "encodes (TArray TAddress) owners" "encodes TUint256 threshold"
    "encodes TAddress to" "encodes TBytes data"
  shows "\<exists>g. encodeFunctionCall w gnosisSafeSetupInterface [owners, threshold, to, data] = Inr g"
proof -
  from assms obtain eo et ea ed where
    "encodeValue (TArray TAddress) owners = Inr eo" "encodeValue TUint256 threshold = Inr et"
    "encodeValue TAddress to = Inr ea" "encodeValue TBytes data = Inr ed"
    by (auto elim!: encodesE)
  then show ?thesis
    by (simp add: encodeFunctionCall_def encodeParameters_def gnosisSafeSetupInterface_def)
qed

lemma userWalletFactory_methods:
  "methods (Contract_new w userWalletFactoryInterface a) ''createUserWallet''
      [v1, v2, v3, v4, v5, v6, v7, v8] =
     Inr \<lparr>parent = Contract_new w userWalletFactoryInterface a,
          abi_method = userWalletFactoryInterface ! 1,
          arguments = [v1, v2, v3, v4, v5, v6, v7, v8]\<rparr>"
  by (simp add: methods_def Contract_new_def userWalletFactoryInterface_def)

lemma createUserWalletRawTx_wellformed:
  assumes "abiBinProvider (oThis s) = bundledArtifacts"
    and "encodes (TArray TAddress) owners" "encodes TUint256 threshold"
    "encodes TAddress to" "encodes TBytes data"
    and "encodes (TArray TAddress) ks" "encodes (TArray TUint256) ls"
    "encodes (TArray TUint256) hs"
  shows "\<exists>tx callData. fst (createUserWalletRawTx owners threshold to data ks ls hs s) = Returns tx \<and>
      contract_address (parent tx) = userWalletFactoryAddress (oThis s) \<and>
      contract_web3 (parent tx) = auxiliaryWeb3 (oThis s) \<and>
      encodeABI tx = Inr callData"
proof -
  from assms(2-5) obtain g where
    g: "encodeFunctionCall (auxiliaryWeb3 (oThis s)) gnosisSafeSetupInterface
          [owners, threshold, to, data] = Inr g"
    using getGnosisSafeData_wellformed by blast
  from assms(6-8) obtain ek el eh where enc:
    "encodeValue (TArray TAddress) ks = Inr ek" "encodeValue (TArray TUint256) ls = Inr el"
    "encodeValue (TArray TUint256) hs = Inr eh"
    by (auto elim!: encodesE)
  let ?tx = "\<lparr>parent = Contract_new (auxiliaryWeb3 (oThis s)) userWalletFactoryInterface
                 (userWalletFactoryAddress (oThis s)),
          abi_method = userWalletFactoryInterface ! 1,
          arguments = [JsAddress (gnosisSafeMasterCopy (oThis s)), JsBytes g,
                     JsAddress (tokenHolderMasterCopy (oThis s)), JsAddress (eip20Token (oThis s)),
                     JsAddress (tokenRules (oThis s)), ks, ls, hs]\<rparr>"
  have "fst (createUserWalletRawTx owners threshold to data ks ls hs s) = Returns ?tx"
    by (simp add: createUserWalletRawTx_run g assms(1) getABI_def bundledArtifacts_def
          UserWalletFactoryContractName_def userWalletFactory_methods)
  moreover have "\<exists>callData. encodeABI ?tx = Inr callData"
    by (simp add: encodeABI_def encodeFunctionCall_def encodeParameters_def enc
          userWalletFactoryInterface_def)
  moreover have "contract_address (parent ?tx) = userWalletFactoryAddress (oThis s)"
    "contract_web3 (parent ?tx) = auxiliaryWeb3 (oThis s)"
    by (simp_all add: Contract_new_def)
  ultimately show ?thesis by metis
qed

lemma tokenHolder_methods:
  "methods (Contract_new w tokenHolderInterface a) ''setup'' [v1, v2, v3, v4, v5, v6] =
     Inr \<lparr>parent = Contract_new w tokenHolderInterface a,
          abi_method = tokenHolderInterface ! 0,
          arguments = [v1, v2, v3, v4, v5, v6]\<rparr>"
  by (simp add: methods_def Contract_new_def tokenHolderInterface_def)

lemma proxyFactory_methods:
  "methods (Contract_new w proxyFactoryInterface a) ''createProxy'' [v1, v2] =
     Inr \<lparr>parent = Contract_new w proxyFactoryInterface a,
          abi_method = proxyFactoryInterface ! 0,
          arguments = [v1, v2]\<rparr>"
  by (simp add: methods_def Contract_new_def proxyFactoryInterface_def)

lemma getTokenHolderSetupExecutableData_wellformed:
  assumes "abiBinProvider (oThis s) = bundledArtifacts"
    and "encodes TAddress owner"
    and "encodes (TArray TAddress) ks" "encodes (TArray TUint256) ls"
    "encodes (TArray TUint256) hs"
  shows "\<exists>d. fst (getTokenHolderSetupExecutableData owner ks ls hs s) = Returns d"
proof -
  from assms(2-5) obtain eo ek el eh where enc:
    "encodeValue TAddress owner = Inr eo"
    "encodeValue (TArray TAddress) ks = Inr ek" "encodeValue (TArray TUint256) ls = Inr el"
    "encodeValue (TArray TUint256) hs = Inr eh"
    by (auto elim!: encodesE)
  have abi: "getABI (abiBinProvider (oThis s)) THMasterCopyContractName = Inr tokenHolderInterface"
    by (simp add: assms(1) getABI_def bundledArtifacts_def THMasterCopyContractName_def)
  show ?thesis
    by (simp add: getTokenHolderSetupExecutableData_run abi tokenHolder_methods)
      (simp add: encodeABI_def encodeFunctionCall_def encodeParameters_def enc
        tokenHolderInterface_def)
qed

lemma createCompanyWalletRawTx_wellformed:
  assumes "abiBinProvider (oThis s) = bundledArtifacts"
    and "encodes TAddress owner"
    and "encodes (TArray TAddress) ks" "encodes (TArray TUint256) ls"
    "encodes (TArray TUint256) hs"
  shows "\<exists>tx callData. fst (createCompanyWalletRawTx pf owner ks ls hs s) = Returns tx \<and>
      contract_address (parent tx) = pf \<and>
      contract_web3 (parent tx) = auxiliaryWeb3 (oThis s) \<and>
      encodeABI tx = Inr callData"
proof -
  from assms obtain d where
    d: "fst (getTokenHolderSetupExecutableData owner ks ls hs s) = Returns d"
    using getTokenHolderSetupExecutableData_wellformed by blast
  let ?tx = "\<lparr>parent = Contract_new (auxiliaryWeb3 (oThis s)) proxyFactoryInterface pf,
          abi_method = proxyFactoryInterface ! 0,
          arguments = [JsAddress (tokenHolderMasterCopy (oThis s)), JsBytes d]\<rparr>"
  have "fst (createCompanyWalletRawTx pf owner ks ls hs s) = Returns ?tx"
    by (simp add: createCompanyWalletRawTx_run d assms(1) getABI_def bundledArtifacts_def
          ProxyFactoryContractName_def proxyFactory_methods)
  moreover have "\<exists>callData. encodeABI ?tx = Inr callData"
    by (simp add: encodeABI_def encodeFunctionCall_def encodeParameters_def
          proxyFactoryInterface_def)
  moreover have "contract_address (parent ?tx) = pf"
    "contract_web3 (parent ?tx) = auxiliaryWeb3 (oThis s)"
    by (simp_all add: Contract_new_def)
  ultimately show ?thesis by metis
qed

text \<open>What the sender does with a transaction object that encodes.\<close>

lemma sender_submits:
  assumes "encodeABI tx = Inr callData"
  shows "\<exists>c history.
      snd (TxSender_execute (TxSender_new tx w options) s) =
        s\<lparr>requests := history @ [EthSendTransaction c]\<rparr> \<and>
      sentTransactions history = sentTransactions (requests s) \<and>
      call_to c = contract_address (parent tx) \<and>
      call_data c = callData \<and>
      call_from c = tx_from options \<and>
      fst (TxSender_execute (TxSender_new tx w options) s) =
        (case sendTransaction (currentProvider w) history c of
           Rejected msg \<Rightarrow> Raises (SubmissionError msg)
         | Mined r \<Rightarrow> if status r then Returns r else Raises (RevertError r)
         | NeverMined \<Rightarrow> Pending)"
  using TxSender_execute_sent [of "TxSender_new tx w options" callData s] assms
  by (simp add: TxSender_new_def)

lemma example_encodes:
  "encodes (TArray TAddress) exampleOwners" "encodes TUint256 (JsNumber 1)"
  "encodes TAddress (JsAddress 0)" "encodes TBytes (JsBytes [])"
  "encodes (TArray TAddress) exampleSessionKeys"
  "encodes (TArray TUint256) exampleSpendingLimits"
  "encodes (TArray TUint256) exampleExpirationHeights"
  "encodes TAddress (JsAddress 0xD0)"
  by (simp_all add: encodes_def exampleOwners_def exampleSessionKeys_def
        exampleSpendingLimits_def exampleExpirationHeights_def)

lemma example_registry:
  "abiBinProvider (oThis (exampleState n)) = bundledArtifacts"
  "abiBinProvider (oThis (otherState n)) = bundledArtifacts"
  by (simp_all add: exampleState_def exampleUser_def otherState_def User_new_def)

lemma getSafeTxData_run:
  "fst (getSafeTxData to val data operation g b p t r nonce s) =
     Returns \<lparr>verifyingContract = gnosisSafeProxy (oThis s),
        message =
          \<lparr>safe_to = to, safe_value = val, safe_data = data, safe_operation = operation,
           safeTxGas = g, baseGas = b, safe_gasPrice = p,
           gasToken = t, refundReceiver = r, safe_nonce = nonce\<rparr>\<rparr>"
  by (simp add: getSafeTxData_def js_defs)

lemma gnosisSafeSetup_signature:
  "functionSignature gnosisSafeSetupInterface = ''setup(address[],uint256,address,bytes)''"
  by (simp add: functionSignature_def gnosisSafeSetupInterface_def)

lemma gnosisSafeSetup_parameters:
  assumes "0 \<le> threshold" "threshold < 2 ^ 256"
  shows "encodeParameters (map input_type (inputs gnosisSafeSetupInterface))
      [JsArray (map JsAddress owners), JsNumber threshold, JsAddress to, JsBytes data] =
    Inr (uint256_word 128 @ uint256_word (nat threshold) @ uint256_word (unat to) @
         uint256_word (160 + 32 * length owners) @
         uint256_word (length owners) @ concat (map (\<lambda>a. uint256_word (unat a)) owners) @
         uint256_word (length data) @ pad_right data)"
  using assms
  by (simp add: encodeParameters_def gnosisSafeSetupInterface_def encodeValue_address_array
      encodeTuple_def encodeTails_def length_concat_words del: encodeValue.simps(4))

lemma aligned_append:
  "length xs mod 32 = 0 \<Longrightarrow> length ys mod 32 = 0 \<Longrightarrow> length (xs @ ys) mod 32 = 0"
  by simp presburger

lemma aligned_word: "length (uint256_word n) mod 32 = 0"
  by simp

lemma aligned_words: "length (concat (map (\<lambda>a. uint256_word (f a)) xs)) mod 32 = 0"
  by (simp add: length_concat_words)

lemma exampleTx_encodes: "\<exists>callData. encodeABI exampleTx = Inr callData"
  by (simp add: exampleTx_def encodeABI_def encodeFunctionCall_def encodeParameters_def
      proxyFactoryInterface_def Contract_new_def)

lemma createUserWallet_wellformed_run:
  assumes "abiBinProvider (oThis s) = bundledArtifacts"
    and "encodes (TArray TAddress) owners" "encodes TUint256 threshold"
    "encodes TAddress to" "encodes TBytes data"
    and "encodes (TArray TAddress) ks" "encodes (TArray TUint256) ls"
    "encodes (TArray TUint256) hs"
  shows "\<exists>c history.
      snd (createUserWallet owners threshold to data ks ls hs options s) =
        s\<lparr>requests := history @ [EthSendTransaction c]\<rparr> \<and>
      sentTransactions history = sentTransactions (requests s) \<and>
      call_to c = userWalletFactoryAddress (oThis s) \<and>
      fst (createUserWallet owners threshold to data ks ls hs options s) =
        (case sendTransaction (currentProvider (auxiliaryWeb3 (oThis s))) history c of
           Rejected msg \<Rightarrow> Raises (SubmissionError msg)
         | Mined r \<Rightarrow> if status r then Returns r else Raises (RevertError r)
         | NeverMined \<Rightarrow> Pending)"
proof -
  from createUserWalletRawTx_wellformed [OF assms] obtain tx callData where
    raw: "fst (createUserWalletRawTx owners threshold to data ks ls hs s) = Returns tx"
    and to: "contract_address (parent tx) = userWalletFactoryAddress (oThis s)"
    and enc: "encodeABI tx = Inr callData"
    by blast
  have run: "createUserWallet owners threshold to data ks ls hs options s =
      TxSender_execute (TxSender_new tx (auxiliaryWeb3 (oThis s)) options) s"
    by (simp add: createUserWallet_run raw)
  from sender_submits [OF enc, of "auxiliaryWeb3 (oThis s)" options s] obtain c history where
    st: "snd (TxSender_execute (TxSender_new tx (auxiliaryWeb3 (oThis s)) options) s) =
        s\<lparr>requests := history @ [EthSendTransaction c]\<rparr>"
    and h: "sentTransactions history = sentTransactions (requests s)"
    and cto: "call_to c = contract_address (parent tx)"
    and out: "fst (TxSender_execute (TxSender_new tx (auxiliaryWeb3 (oThis s)) options) s) =
        (case sendTransaction (currentProvider (auxiliaryWeb3 (oThis s))) history c of
           Rejected msg \<Rightarrow> Raises (SubmissionError msg)
         | Mined r \<Rightarrow> if status r then Returns r else Raises (RevertError r)
         | NeverMined \<Rightarrow> Pending)"
    by blast
  show ?thesis
    unfolding run
  proof (intro exI conjI)
    show "snd (TxSender_execute (TxSender_new tx (auxiliaryWeb3 (oThis s)) options) s) =
        s\<lparr>requests := history @ [EthSendTransaction c]\<rparr>" by (rule st)
    show "sentTransactions history = sentTransactions (requests s)" by (rule h)
    show "call_to c = userWalletFactoryAddress (oThis s)" by (simp add: cto to)
    show "fst (TxSender_execute (TxSender_new tx (auxiliaryWeb3 (oThis s)) options) s) =
        (case sendTransaction (currentProvider (auxiliaryWeb3 (oThis s))) history c of
           Rejected msg \<Rightarrow> Raises (SubmissionError msg)
         | Mined r \<Rightarrow> if status r then Returns r else Raises (RevertError r)
         | NeverMined \<Rightarrow> Pending)" by (rule out)
  qed
qed

lemma createCompanyWallet_wellformed_run:
  assumes "abiBinProvider (oThis s) = bundledArtifacts"
    and "encodes TAddress owner"
    and "encodes (TArray TAddress) ks" "encodes (TArray TUint256) ls"
    "encodes (TArray TUint256) hs"
  shows "\<exists>c history.
      snd (createCompanyWallet pf owner ks ls hs options s) =
        s\<lparr>requests := history @ [EthSendTransaction c]\<rparr> \<and>
      sentTransactions history = sentTransactions (requests s) \<and>
      call_to c = pf \<and>
      fst (createCompanyWallet pf owner ks ls hs options s) =
        (case sendTransaction (currentProvider (auxiliaryWeb3 (oThis s))) history c of
           Rejected msg \<Rightarrow> Raises (SubmissionError msg)
         | Mined r \<Rightarrow> if status r then Returns r else Raises (RevertError r)
         | NeverMined \<Rightarrow> Pending)"
proof -
  from createCompanyWalletRawTx_wellformed [OF assms] obtain tx callData where
    raw: "fst (createCompanyWalletRawTx pf owner ks ls hs s) = Returns tx"
    and to: "contract_address (parent tx) = pf"
    and enc: "encodeABI tx = Inr callData"
    by blast
  have run: "createCompanyWallet pf owner ks ls hs options s =
      TxSender_execute (TxSender_new tx (auxiliaryWeb3 (oThis s)) options) s"
    by (simp add: createCompanyWallet_run raw)
  from sender_submits [OF enc, of "auxiliaryWeb3 (oThis s)" options s] obtain c history where
    st: "snd (TxSender_execute (TxSender_new tx (auxiliaryWeb3 (oThis s)) options) s) =
        s\<lparr>requests := history @ [EthSendTransaction c]\<rparr>"
    and h: "sentTransactions history = sentTransactions (requests s)"
    and cto: "call_to c = contract_address (parent tx)"
    and out: "fst (TxSender_execute (TxSender_new tx (auxiliaryWeb3 (oThis s)) options) s) =
        (case sendTransaction (currentProvider (auxiliaryWeb3 (oThis s))) history c of
           Rejected msg \<Rightarrow> Raises (SubmissionError msg)
         | Mined r \<Rightarrow> if status r then Returns r else Raises (RevertError r)
         | NeverMined \<Rightarrow> Pending)"
    by blast
  show ?thesis
    unfolding run
  proof (intro exI conjI)
    show "snd (TxSender_execute (TxSender_new tx (auxiliaryWeb3 (oThis s)) options) s) =
        s\<lparr>requests := history @ [EthSendTransaction c]\<rparr>" by (rule st)
    show "sentTransactions history = sentTransactions (requests s)" by (rule h)
    show "call_to c = pf" by (simp add: cto to)
    show "fst (TxSender_execute (TxSender_new tx (auxiliaryWeb3 (oThis s)) options) s) =
        (case sendTransaction (currentProvider (auxiliaryWeb3 (oThis s))) history c of
           Rejected msg \<Rightarrow> Raises (SubmissionError msg)
         | Mined r \<Rightarrow> if status r then Returns r else Raises (RevertError r)
         | NeverMined \<Rightarrow> Pending)" by (rule out)
  qed
qed

lemma example_createUserWallet:
  "fst (createUserWallet exampleOwners (JsNumber 1) (JsAddress 0) (JsBytes [])
      exampleSessionKeys exampleSpendingLimits exampleExpirationHeights exampleOptions
      (exampleState miningNode)) = Returns minedReceipt"
proof -
  from createUserWallet_wellformed_run [OF example_registry(1) [of miningNode]
      example_encodes(1-7), where options = exampleOptions]
  obtain c history where
    "fst (createUserWallet exampleOwners (JsNumber 1) (JsAddress 0) (JsBytes [])
      exampleSessionKeys exampleSpendingLimits exampleExpirationHeights exampleOptions
      (exampleState miningNode)) =
     (case sendTransaction (currentProvider (auxiliaryWeb3 (oThis (exampleState miningNode))))
             history c of
        Rejected msg \<Rightarrow> Raises (SubmissionError msg)
      | Mined r \<Rightarrow> if status r then Returns r else Raises (RevertError r)
      | NeverMined \<Rightarrow> Pending)"
    by blast
  then show ?thesis
    by (simp add: exampleState_def exampleUser_def User_new_def exampleWeb3_def
        miningNode_def minedReceipt_def)
qed

lemma twoSessionKeys_encodes: "encodes (TArray TAddress) twoSessionKeys"
  by (simp add: encodes_def twoSessionKeys_def)

lemma reverting_outcome:
  "(case sendTransaction (currentProvider (auxiliaryWeb3 (oThis (exampleState revertingNode))))
           history c of
      Rejected msg \<Rightarrow> Raises (SubmissionError msg)
    | Mined r \<Rightarrow> if status r then Returns r else Raises (RevertError r)
    | NeverMined \<Rightarrow> Pending) = Raises (RevertError revertedReceipt)"
  by (simp add: exampleState_def exampleUser_def User_new_def exampleWeb3_def
      revertingNode_def revertedReceipt_def)

lemma unchanged_requests_encoding_error:
  assumes "encodeABI tx = Inl e"
  shows "TxSender_execute (TxSender_new tx w options) s = (Raises e, s)"
  using assms by (simp add: TxSender_execute_encoding_error TxSender_new_def)

lemma createUserWallet_dispatched:
  assumes "requests (snd (createUserWallet owners threshold to data ks ls hs options s)) \<noteq>
    requests s"
  shows "\<exists>jsonInterface tx callData c history.
    getABI (abiBinProvider (oThis s)) UserWalletFactoryContractName = Inr jsonInterface \<and>
    fst (createUserWalletRawTx owners threshold to data ks ls hs s) = Returns tx \<and>
    abi_method tx \<in> set jsonInterface \<and>
    encodeABI tx = Inr callData \<and>
    requests (snd (createUserWallet owners threshold to data ks ls hs options s)) =
      history @ [EthSendTransaction c] \<and>
    call_data c = callData"
proof -
  let ?call = "createUserWallet owners threshold to data ks ls hs options s"
  let ?raw = "createUserWalletRawTx owners threshold to data ks ls hs s"
  from assms obtain tx where raw: "fst ?raw = Returns tx"
    by (cases "fst ?raw") (simp_all add: createUserWallet_run)
  then have run: "?call = TxSender_execute (TxSender_new tx (auxiliaryWeb3 (oThis s)) options) s"
    by (simp add: createUserWallet_run)
  obtain callData where enc: "encodeABI tx = Inr callData"
  proof (cases "encodeABI tx")
    case (Inl e)
    then have "?call = (Raises e, s)"
      by (simp add: run unchanged_requests_encoding_error)
    with assms show ?thesis by simp
  next
    case (Inr callData)
    then show ?thesis by (rule that)
  qed
  from raw obtain g jsonInterface where
    abi: "getABI (abiBinProvider (oThis s)) UserWalletFactoryContractName = Inr jsonInterface"
    and m: "methods
        (Contract_new (auxiliaryWeb3 (oThis s)) jsonInterface (userWalletFactoryAddress (oThis s)))
        ''createUserWallet''
        [JsAddress (gnosisSafeMasterCopy (oThis s)), JsBytes g,
         JsAddress (tokenHolderMasterCopy (oThis s)), JsAddress (eip20Token (oThis s)),
         JsAddress (tokenRules (oThis s)), ks, ls, hs] = Inr tx"
    by (auto simp: createUserWalletRawTx_run split: sum.splits)
  from methods_Inr [OF m] have mem: "abi_method tx \<in> set jsonInterface"
    by (simp add: Contract_new_def)
  from sender_submits [OF enc, of "auxiliaryWeb3 (oThis s)" options s] obtain c history where
    st: "snd ?call = s\<lparr>requests := history @ [EthSendTransaction c]\<rparr>"
    and cd: "call_data c = callData"
    unfolding run by blast
  show ?thesis
  proof (intro exI conjI)
    show "getABI (abiBinProvider (oThis s)) UserWalletFactoryContractName = Inr jsonInterface"
      by (rule abi)
    show "fst ?raw = Returns tx" by (rule raw)
    show "abi_method tx \<in> set jsonInterface" by (rule mem)
    show "encodeABI tx = Inr callData" by (rule enc)
    show "requests (snd ?call) = history @ [EthSendTransaction c]" by (simp add: st)
    show "call_data c = callData" by (rule cd)
  qed
qed

lemma createCompanyWallet_dispatched:
  assumes "requests (snd (createCompanyWallet pf owner ks ls hs options s)) \<noteq> requests s"
  shows "\<exists>thMasterCopyAbi thSetupExecutableData jsonInterface tx callData c history.
    getABI (abiBinProvider (oThis s)) THMasterCopyContractName = Inr thMasterCopyAbi \<and>
    fst (getTokenHolderSetupExecutableData owner ks ls hs s) = Returns thSetupExecutableData \<and>
    getABI (abiBinProvider (oThis s)) ProxyFactoryContractName = Inr jsonInterface \<and>
    fst (createCompanyWalletRawTx pf owner ks ls hs s) = Returns tx \<and>
    abi_method tx \<in> set jsonInterface \<and>
    encodeABI tx = Inr callData \<and>
    requests (snd (createCompanyWallet pf owner ks ls hs options s)) =
      history @ [EthSendTransaction c] \<and>
    call_data c = callData"
proof -
  let ?call = "createCompanyWallet pf owner ks ls hs options s"
  let ?raw = "createCompanyWalletRawTx pf owner ks ls hs s"
  from assms obtain tx where raw: "fst ?raw = Returns tx"
    by (cases "fst ?raw") (simp_all add: createCompanyWallet_run)
  then have run: "?call = TxSender_execute (TxSender_new tx (auxiliaryWeb3 (oThis s)) options) s"
    by (simp add: createCompanyWallet_run)
  obtain callData where enc: "encodeABI tx = Inr callData"
  proof (cases "encodeABI tx")
    case (Inl e)
    then have "?call = (Raises e, s)"
      by (simp add: run unchanged_requests_encoding_error)
    with assms show ?thesis by simp
  next
    case (Inr callData)
    then show ?thesis by (rule that)
  qed
  from raw obtain d jsonInterface where
    d: "fst (getTokenHolderSetupExecutableData owner ks ls hs s) = Returns d"
    and abi: "getABI (abiBinProvider (oThis s)) ProxyFactoryContractName = Inr jsonInterface"
    and m: "methods (Contract_new (auxiliaryWeb3 (oThis s)) jsonInterface pf)
        ''createProxy'' [JsAddress (tokenHolderMasterCopy (oThis s)), JsBytes d] = Inr tx"
    by (auto simp: createCompanyWalletRawTx_run split: outcome.splits sum.splits)
  from d obtain thAbi where
    thAbi: "getABI (abiBinProvider (oThis s)) THMasterCopyContractName = Inr thAbi"
    by (auto simp: getTokenHolderSetupExecutableData_run split: sum.splits)
  from methods_Inr [OF m] have mem: "abi_method tx \<in> set jsonInterface"
    by (simp add: Contract_new_def)
  from sender_submits [OF enc, of "auxiliaryWeb3 (oThis s)" options s] obtain c history where
    st: "snd ?call = s\<lparr>requests := history @ [EthSendTransaction c]\<rparr>"
    and cd: "call_data c = callData"
    unfolding run by blast
  show ?thesis
  proof (intro exI conjI)
    show "getABI (abiBinProvider (oThis s)) THMasterCopyContractName = Inr thAbi"
      by (rule thAbi)
    show "fst (getTokenHolderSetupExecutableData owner ks ls hs s) = Returns d" by (rule d)
    show "getABI (abiBinProvider (oThis s)) ProxyFactoryContractName = Inr jsonInterface"
      by (rule abi)
    show "fst ?raw = Returns tx" by (rule raw)
    show "abi_method tx \<in> set jsonInterface" by (rule mem)
    show "encodeABI tx = Inr callData" by (rule enc)
    show "requests (snd ?call) = history @ [EthSendTransaction c]" by (simp add: st)
    show "call_data c = callData" by (rule cd)
  qed
qed

lemma example_gnosisSafeData:
  "\<exists>g. fst (getGnosisSafeData exampleOwners (JsNumber 1) (JsAddress 0) (JsBytes []) s) = Returns g"
  using getGnosisSafeData_wellformed [OF example_encodes(1-4), of "auxiliaryWeb3 (oThis s)"]
  by (auto simp: getGnosisSafeData_run js_of_def)

lemma hashBytes_sha3: "sha3 w1 = sha3 w2 \<Longrightarrow> hashBytes w1 bs = hashBytes w2 bs"
  by (simp add: hashBytes_def)

lemma structHash_sha3: "sha3 w1 = sha3 w2 \<Longrightarrow> structHash w1 td = structHash w2 td"
  by (simp add: structHash_def encodeSafeTx_def hashBytes_def)

lemma encodeFunctionCall_sha3:
  "sha3 w1 = sha3 w2 \<Longrightarrow> encodeFunctionCall w1 f ps = encodeFunctionCall w2 f ps"
  by (simp add: encodeFunctionCall_def encodeFunctionSignature_def split: sum.splits)

lemma methods_then_encodeABI_sha3:
  assumes "sha3 w1 = sha3 w2"
  shows "(case methods (Contract_new w1 abi a1) nm args of
            Inl e \<Rightarrow> Raises e
          | Inr tx \<Rightarrow> (case encodeABI tx of Inl e \<Rightarrow> Raises e | Inr d \<Rightarrow> Returns d)) =
         (case methods (Contract_new w2 abi a2) nm args of
            Inl e \<Rightarrow> Raises e
          | Inr tx \<Rightarrow> (case encodeABI tx of Inl e \<Rightarrow> Raises e | Inr d \<Rightarrow> Returns d))"
  using encodeFunctionCall_sha3 [OF assms]
  by (simp add: methods_def encodeABI_def Contract_new_def
      split: list.splits option.splits)

lemma createUserWallet_steps:
  "createUserWallet owners threshold to data sessionKeys limits heights options s =
     (case encodeFunctionCall (auxiliaryWeb3 (oThis s)) gnosisSafeSetupInterface
             [owners, threshold, to, data] of
        Inl e \<Rightarrow> (Raises e, s)
      | Inr gnosisSafeData \<Rightarrow>
          (case getABI (abiBinProvider (oThis s)) UserWalletFactoryContractName of
             Inl e \<Rightarrow> (Raises e, s)
           | Inr jsonInterface \<Rightarrow>
               (case methods
                    (Contract_new (auxiliaryWeb3 (oThis s)) jsonInterface
                       (userWalletFactoryAddress (oThis s)))
                    ''createUserWallet''
                    [JsAddress (gnosisSafeMasterCopy (oThis s)), JsBytes gnosisSafeData,
                     JsAddress (tokenHolderMasterCopy (oThis s)), JsAddress (eip20Token (oThis s)),
                     JsAddress (tokenRules (oThis s)), sessionKeys, limits, heights] of
                  Inl e \<Rightarrow> (Raises e, s)
                | Inr tx \<Rightarrow>
                    (case encodeABI tx of
                       Inl e \<Rightarrow> (Raises e, s)
                     | Inr callData \<Rightarrow>
                         TxSender_execute
                           (TxSender_new tx (auxiliaryWeb3 (oThis s)) options) s))))"
  by (simp add: createUserWallet_run createUserWalletRawTx_run
      unchanged_requests_encoding_error split: sum.splits)

lemma createCompanyWallet_steps:
  "createCompanyWallet proxyFactory owner sessionKeys limits heights options s =
     (case getABI (abiBinProvider (oThis s)) THMasterCopyContractName of
        Inl e \<Rightarrow> (Raises e, s)
      | Inr thMasterCopyAbi \<Rightarrow>
          (case methods
               (Contract_new (auxiliaryWeb3 (oThis s)) thMasterCopyAbi
                  (tokenHolderMasterCopy (oThis s)))
               ''setup''
               [JsAddress (eip20Token (oThis s)), JsAddress (tokenRules (oThis s)), owner,
                sessionKeys, limits, heights] of
             Inl e \<Rightarrow> (Raises e, s)
           | Inr setupCall \<Rightarrow>
               (case encodeABI setupCall of
                  Inl e \<Rightarrow> (Raises e, s)
                | Inr thSetupExecutableData \<Rightarrow>
                    (case getABI (abiBinProvider (oThis s)) ProxyFactoryContractName of
                       Inl e \<Rightarrow> (Raises e, s)
                     | Inr jsonInterface \<Rightarrow>
                         (case methods
                              (Contract_new (auxiliaryWeb3 (oThis s)) jsonInterface proxyFactory)
                              ''createProxy''
                              [JsAddress (tokenHolderMasterCopy (oThis s)),
                               JsBytes thSetupExecutableData] of
                            Inl e \<Rightarrow> (Raises e, s)
                          | Inr tx \<Rightarrow>
                              (case encodeABI tx of
                                 Inl e \<Rightarrow> (Raises e, s)
                               | Inr callData \<Rightarrow>
                                   TxSender_execute
                                     (TxSender_new tx (auxiliaryWeb3 (oThis s)) options)
                                     s))))))"
  by (simp add: createCompanyWallet_run createCompanyWalletRawTx_run
      getTokenHolderSetupExecutableData_run unchanged_requests_encoding_error
      split: sum.splits)

lemma bad_to_encoding:
  "encodeFunctionCall w gnosisSafeSetupInterface
      [exampleOwners, JsNumber 1, JsBytes [], JsBytes []] =
     Inl (ValidationError ''invalid value for type'')"
  by (simp add: encodeFunctionCall_def encodeParameters_def gnosisSafeSetupInterface_def
      exampleOwners_def)

lemma bad_owner_encoding:
  "encodeABI
      \<lparr>parent = Contract_new w tokenHolderInterface a,
       abi_method = tokenHolderInterface ! 0,
       arguments = [JsAddress t, JsAddress r, JsBytes [], exampleSessionKeys,
                    exampleSpendingLimits, exampleExpirationHeights]\<rparr> =
     Inl (ValidationError ''invalid value for type'')"
  by (simp add: encodeABI_def encodeFunctionCall_def encodeParameters_def
      tokenHolderInterface_def)

lemma example_setup_encoding:
  "\<exists>g. encodeFunctionCall w gnosisSafeSetupInterface
      [exampleOwners, JsNumber 1, JsAddress 0, JsBytes []] = Inr g"
  by (rule getGnosisSafeData_wellformed [OF example_encodes(1-4)])

lemma bad_session_keys_encoding:
  "encodeABI
      \<lparr>parent = Contract_new w userWalletFactoryInterface a,
       abi_method = userWalletFactoryInterface ! Suc 0,
       arguments = [JsAddress m, JsBytes g, JsAddress t, JsAddress k, JsAddress r,
                    JsNumber 5, exampleSpendingLimits, exampleExpirationHeights]\<rparr> =
     Inl (ValidationError ''invalid value for type'')"
  by (simp add: encodeABI_def encodeFunctionCall_def encodeParameters_def
      userWalletFactoryInterface_def)

lemma example_getABI:
  "getABI (abiBinProvider (oThis emptyRegistryState)) UserWalletFactoryContractName =
     Inl (NotFoundError ''UserWalletFactory'')"
  "getABI (abiBinProvider (oThis emptyRegistryState)) THMasterCopyContractName =
     Inl (NotFoundError ''TokenHolder'')"
  "getABI (abiBinProvider (oThis tokenHolderOnlyState)) THMasterCopyContractName =
     Inr tokenHolderInterface"
  "getABI (abiBinProvider (oThis tokenHolderOnlyState)) ProxyFactoryContractName =
     Inl (NotFoundError ''ProxyFactory'')"
  "getABI (abiBinProvider (oThis (exampleState n))) UserWalletFactoryContractName =
     Inr userWalletFactoryInterface"
  by (simp_all add: getABI_def emptyRegistryState_def tokenHolderOnlyState_def User_new_def
      exampleState_def exampleUser_def bundledArtifacts_def
      UserWalletFactoryContractName_def THMasterCopyContractName_def
      ProxyFactoryContractName_def)

section \<open>The owner list of the GnosisSafe helper\<close>

lemma previousOwnerFrom_nth:
  "distinct owners \<Longrightarrow> i < length owners \<Longrightarrow>
     previousOwnerFrom prev owners (owners ! i) =
       Some (if i = 0 then prev else owners ! (i - 1))"
proof (induction owners arbitrary: prev i)
  case Nil
  then show ?case by simp
next
  case (Cons x xs)
  show ?case
  proof (cases i)
    case 0
    then show ?thesis by simp
  next
    case (Suc j)
    with Cons.prems have j: "j < length xs" and d: "distinct xs" and x: "x \<notin> set xs"
      by simp_all
    from j x have ne: "xs ! j \<noteq> x" by (metis nth_mem)
    from Cons.IH [OF d j, of x] ne Suc show ?thesis
      by (cases j) simp_all
  qed
qed

lemma ownerLinks_nth:
  "distinct (prev # owners) \<Longrightarrow> i < length owners \<Longrightarrow>
     ownerLinks sentinel prev owners (if i = 0 then prev else owners ! (i - 1)) =
       Some (owners ! i)"
proof (induction owners arbitrary: prev i)
  case Nil
  then show ?case by simp
next
  case (Cons x xs)
  show ?case
  proof (cases i)
    case 0
    then show ?thesis by simp
  next
    case (Suc j)
    with Cons.prems have j: "j < length xs" and d: "distinct (x # xs)"
      and p: "prev \<notin> set (x # xs)"
      by simp_all
    let ?k = "if j = 0 then x else xs ! (j - 1)"
    have "?k \<in> set (x # xs)" using j by (cases j) simp_all
    with p have ne: "?k \<noteq> prev" by metis
    have key: "(x # xs) ! (i - 1) = ?k" using Suc by (cases j) simp_all
    from Cons.IH [OF d j] ne key Suc show ?thesis
      by (simp del: distinct.simps)
  qed
qed

section \<open>The claims\<close>

text \<open>
  Claim C1, as the code has it. \<^verbatim>\<open>createUserWallet\<close> and \<^verbatim>\<open>createCompanyWallet\<close>
  do not compare the lengths of \<^verbatim>\<open>sessionKeys\<close>, \<^verbatim>\<open>sessionKeysSpendingLimits\<close>
  and \<^verbatim>\<open>sessionKeysExpirationHeights\<close>. When the registry holds the interfaces of
  the contracts and each argument is accepted by the encoder on its own, the call raises
  no \<^verbatim>\<open>ValidationError\<close> and submits exactly one transaction, to the wallet factory
  or to the proxy factory, whether the three lengths agree or not.
\<close>

theorem session_key_lengths_are_not_compared:
  assumes "abiBinProvider (oThis s) = bundledArtifacts"
    and "encodes (TArray TAddress) owners" and "encodes TUint256 threshold"
    and "encodes TAddress to" and "encodes TBytes data"
    and "encodes TAddress owner"
    and "encodes (TArray TAddress) sessionKeys"
    and "encodes (TArray TUint256) sessionKeysSpendingLimits"
    and "encodes (TArray TUint256) sessionKeysExpirationHeights"
  shows "(\<exists>c. sentTransactions (requests (snd (createUserWallet owners threshold to data
              sessionKeys sessionKeysSpendingLimits sessionKeysExpirationHeights options s))) =
            sentTransactions (requests s) @ [c] \<and>
          call_to c = userWalletFactoryAddress (oThis s)) \<and>
    (\<forall>msg. fst (createUserWallet owners threshold to data sessionKeys
              sessionKeysSpendingLimits sessionKeysExpirationHeights options s) \<noteq>
            Raises (ValidationError msg)) \<and>
    (\<exists>c. sentTransactions (requests (snd (createCompanyWallet proxyFactory owner
              sessionKeys sessionKeysSpendingLimits sessionKeysExpirationHeights options s))) =
            sentTransactions (requests s) @ [c] \<and>
          call_to c = proxyFactory) \<and>
    (\<forall>msg. fst (createCompanyWallet proxyFactory owner sessionKeys
              sessionKeysSpendingLimits sessionKeysExpirationHeights options s) \<noteq>
            Raises (ValidationError msg))"
proof -
  let ?user = "createUserWallet owners threshold to data sessionKeys
      sessionKeysSpendingLimits sessionKeysExpirationHeights options s"
  let ?company = "createCompanyWallet proxyFactory owner sessionKeys
      sessionKeysSpendingLimits sessionKeysExpirationHeights options s"
  from createUserWallet_wellformed_run [OF assms(1-5) assms(7-9), of options]
  obtain c history where
    st: "snd ?user = s\<lparr>requests := history @ [EthSendTransaction c]\<rparr>"
    and h: "sentTransactions history = sentTransactions (requests s)"
    and cto: "call_to c = userWalletFactoryAddress (oThis s)"
    and out: "fst ?user =
        (case sendTransaction (currentProvider (auxiliaryWeb3 (oThis s))) history c of
           Rejected msg \<Rightarrow> Raises (SubmissionError msg)
         | Mined r \<Rightarrow> if status r then Returns r else Raises (RevertError r)
         | NeverMined \<Rightarrow> Pending)"
    by blast
  from createCompanyWallet_wellformed_run [OF assms(1) assms(6-9), of proxyFactory options]
  obtain c' history' where
    st': "snd ?company = s\<lparr>requests := history' @ [EthSendTransaction c']\<rparr>"
    and h': "sentTransactions history' = sentTransactions (requests s)"
    and cto': "call_to c' = proxyFactory"
    and out': "fst ?company =
        (case sendTransaction (currentProvider (auxiliaryWeb3 (oThis s))) history' c' of
           Rejected msg \<Rightarrow> Raises (SubmissionError msg)
         | Mined r \<Rightarrow> if status r then Returns r else Raises (RevertError r)
         | NeverMined \<Rightarrow> Pending)"
    by blast
  have a: "sentTransactions (requests (snd ?user)) = sentTransactions (requests s) @ [c]"
    by (simp add: st sentTransactions_append h)
  have b: "\<forall>msg. fst ?user \<noteq> Raises (ValidationError msg)"
    by (simp add: out split: node_reply.splits)
  have a': "sentTransactions (requests (snd ?company)) = sentTransactions (requests s) @ [c']"
    by (simp add: st' sentTransactions_append h')
  have b': "\<forall>msg. fst ?company \<noteq> Raises (ValidationError msg)"
    by (simp add: out' split: node_reply.splits)
  from a cto b a' cto' b' show ?thesis by blast
qed

theorem session_key_lengths_are_not_compared_witness:
  "(\<exists>c. sentTransactions (requests (snd (createUserWallet exampleOwners (JsNumber 1)
       (JsAddress 0) (JsBytes []) (JsArray [JsAddress 0xA5, JsAddress 0xA6])
       (JsArray [JsNumber 1000000]) (JsArray [JsNumber 100000000]) exampleOptions
       (exampleState revertingNode)))) = [c] \<and>
     call_to c = 0x15) \<and>
   (\<exists>c. sentTransactions (requests (snd (createCompanyWallet 0x16 (JsAddress 0xD0)
       (JsArray [JsAddress 0xA5, JsAddress 0xA6]) (JsArray [JsNumber 1000000])
       (JsArray [JsNumber 100000000]) exampleOptions (exampleState revertingNode)))) = [c] \<and>
     call_to c = 0x16)"
  using session_key_lengths_are_not_compared [OF example_registry(1) [of revertingNode]
      example_encodes(1-4) example_encodes(8) twoSessionKeys_encodes example_encodes(6-7),
      of exampleOptions "0x16"]
  by (simp add: exampleState_def exampleUser_def User_new_def twoSessionKeys_def
      exampleSpendingLimits_def exampleExpirationHeights_def)

text \<open>
  The claim as the specification states it fails: with two session keys, one spending
  limit and one expiration height, on a node that mines the transaction and reverts it,
  both methods submit one transaction and raise the \<^verbatim>\<open>RevertError\<close> of the sender,
  not a \<^verbatim>\<open>ValidationError\<close> before any network call.
\<close>

theorem mismatched_session_keys_counterexample:
  "fst (createUserWallet exampleOwners (JsNumber 1) (JsAddress 0) (JsBytes [])
      (JsArray [JsAddress 0xA5, JsAddress 0xA6]) (JsArray [JsNumber 1000000])
      (JsArray [JsNumber 100000000]) exampleOptions (exampleState revertingNode)) =
     Raises (RevertError revertedReceipt) \<and>
   length (sentTransactions (requests (snd (createUserWallet exampleOwners (JsNumber 1)
      (JsAddress 0) (JsBytes []) (JsArray [JsAddress 0xA5, JsAddress 0xA6])
      (JsArray [JsNumber 1000000]) (JsArray [JsNumber 100000000]) exampleOptions
      (exampleState revertingNode))))) = 1 \<and>
   fst (createCompanyWallet 0x16 (JsAddress 0xD0)
      (JsArray [JsAddress 0xA5, JsAddress 0xA6]) (JsArray [JsNumber 1000000])
      (JsArray [JsNumber 100000000]) exampleOptions (exampleState revertingNode)) =
     Raises (RevertError revertedReceipt) \<and>
   length (sentTransactions (requests (snd (createCompanyWallet 0x16 (JsAddress 0xD0)
      (JsArray [JsAddress 0xA5, JsAddress 0xA6]) (JsArray [JsNumber 1000000])
      (JsArray [JsNumber 100000000]) exampleOptions (exampleState revertingNode))))) = 1"
proof -
  let ?user = "createUserWallet exampleOwners (JsNumber 1) (JsAddress 0) (JsBytes [])
      twoSessionKeys exampleSpendingLimits exampleExpirationHeights exampleOptions
      (exampleState revertingNode)"
  let ?company = "createCompanyWallet 0x16 (JsAddress 0xD0) twoSessionKeys
      exampleSpendingLimits exampleExpirationHeights exampleOptions (exampleState revertingNode)"
  from createUserWallet_wellformed_run [OF example_registry(1) [of revertingNode]
      example_encodes(1-4) twoSessionKeys_encodes example_encodes(6-7), of exampleOptions]
  obtain c history where
    "snd ?user = (exampleState revertingNode)\<lparr>requests := history @ [EthSendTransaction c]\<rparr>"
    "sentTransactions history = sentTransactions (requests (exampleState revertingNode))"
    "fst ?user =
        (case sendTransaction (currentProvider (auxiliaryWeb3 (oThis (exampleState revertingNode))))
                history c of
           Rejected msg \<Rightarrow> Raises (SubmissionError msg)
         | Mined r \<Rightarrow> if status r then Returns r else Raises (RevertError r)
         | NeverMined \<Rightarrow> Pending)"
    by blast
  then have u: "fst ?user = Raises (RevertError revertedReceipt)"
    "length (sentTransactions (requests (snd ?user))) = 1"
    by (simp_all add: reverting_outcome sentTransactions_append)
      (simp add: exampleState_def)
  from createCompanyWallet_wellformed_run [OF example_registry(1) [of revertingNode]
      example_encodes(8) twoSessionKeys_encodes example_encodes(6-7), of "0x16" exampleOptions]
  obtain c' history' where
    "snd ?company =
      (exampleState revertingNode)\<lparr>requests := history' @ [EthSendTransaction c']\<rparr>"
    "sentTransactions history' = sentTransactions (requests (exampleState revertingNode))"
    "fst ?company =
        (case sendTransaction (currentProvider (auxiliaryWeb3 (oThis (exampleState revertingNode))))
                history' c' of
           Rejected msg \<Rightarrow> Raises (SubmissionError msg)
         | Mined r \<Rightarrow> if status r then Returns r else Raises (RevertError r)
         | NeverMined \<Rightarrow> Pending)"
    by blast
  then have c: "fst ?company = Raises (RevertError revertedReceipt)"
    "length (sentTransactions (requests (snd ?company))) = 1"
    by (simp_all add: reverting_outcome sentTransactions_append)
      (simp add: exampleState_def)
  from u c show ?thesis
    by (simp add: twoSessionKeys_def exampleSpendingLimits_def exampleExpirationHeights_def)
qed

text \<open>
  Claim C2. Encoding is deterministic. The outcome of \<^verbatim>\<open>getGnosisSafeData\<close> is the
  web3 encoding of its four arguments under the setup interface and nothing else: two
  runs with the same arguments give the same call data (or the same error) on any two
  instances whose web3 objects hash alike, whatever the other fields of the instances
  and the requests issued so far. The outcome of
  \<^verbatim>\<open>getTokenHolderSetupExecutableData\<close> is likewise the same on any two instances
  that agree on the hash, the registered TokenHolder interface, the token and the token
  rules. The typed data of a Safe Transaction and its struct hash are the same for the
  same ten arguments, the same safe and the same hash.
\<close>

theorem encoding_deterministic:
  assumes "sha3 (auxiliaryWeb3 (oThis s1)) = sha3 (auxiliaryWeb3 (oThis s2))"
    and "abi_of (abiBinProvider (oThis s1)) THMasterCopyContractName =
      abi_of (abiBinProvider (oThis s2)) THMasterCopyContractName"
    and "eip20Token (oThis s1) = eip20Token (oThis s2)"
    and "tokenRules (oThis s1) = tokenRules (oThis s2)"
    and "gnosisSafeProxy (oThis g1) = gnosisSafeProxy (oThis g2)"
    and "sha3 (safe_web3 (oThis g1)) = sha3 (safe_web3 (oThis g2))"
  shows "fst (getGnosisSafeData owners threshold to data s1) =
      fst (getGnosisSafeData owners threshold to data s2) \<and>
    fst (getGnosisSafeData owners threshold to data s1) =
      (case encodeFunctionCall (auxiliaryWeb3 (oThis s1)) gnosisSafeSetupInterface
              [owners, threshold, to, data] of
         Inl e \<Rightarrow> Raises e
       | Inr callData \<Rightarrow> Returns callData) \<and>
    fst (getTokenHolderSetupExecutableData owner sessionKeys limits heights s1) =
      fst (getTokenHolderSetupExecutableData owner sessionKeys limits heights s2) \<and>
    fst (getTokenHolderSetupExecutableData owner sessionKeys limits heights s1) =
      (case getABI (abiBinProvider (oThis s1)) THMasterCopyContractName of
         Inl e \<Rightarrow> Raises e
       | Inr thMasterCopyAbi \<Rightarrow>
           (case methods
                (Contract_new (auxiliaryWeb3 (oThis s1)) thMasterCopyAbi
                   (tokenHolderMasterCopy (oThis s1)))
                ''setup''
                [JsAddress (eip20Token (oThis s1)), JsAddress (tokenRules (oThis s1)), owner,
                 sessionKeys, limits, heights] of
              Inl e \<Rightarrow> Raises e
            | Inr setupCall \<Rightarrow>
                (case encodeABI setupCall of
                   Inl e \<Rightarrow> Raises e
                 | Inr callData \<Rightarrow> Returns callData))) \<and>
    (\<exists>typedData.
       fst (getSafeTxData safeTo val safeData operation txGas dataGas price token receiver
              nonce g1) = Returns typedData \<and>
       fst (getSafeTxData safeTo val safeData operation txGas dataGas price token receiver
              nonce g2) = Returns typedData \<and>
       verifyingContract typedData = gnosisSafeProxy (oThis g1) \<and>
       message typedData =
         \<lparr>safe_to = safeTo, safe_value = val, safe_data = safeData,
          safe_operation = operation, safeTxGas = txGas, baseGas = dataGas,
          safe_gasPrice = price, gasToken = token, refundReceiver = receiver,
          safe_nonce = nonce\<rparr> \<and>
       structHash (safe_web3 (oThis g1)) typedData =
         structHash (safe_web3 (oThis g2)) typedData)"
proof (intro conjI)
  show "fst (getGnosisSafeData owners threshold to data s1) =
      fst (getGnosisSafeData owners threshold to data s2)"
    using encodeFunctionCall_sha3 [OF assms(1)]
    by (simp add: getGnosisSafeData_run js_of_def split: sum.splits)
  show "fst (getGnosisSafeData owners threshold to data s1) =
      (case encodeFunctionCall (auxiliaryWeb3 (oThis s1)) gnosisSafeSetupInterface
              [owners, threshold, to, data] of
         Inl e \<Rightarrow> Raises e
       | Inr callData \<Rightarrow> Returns callData)"
    by (simp add: getGnosisSafeData_run js_of_def split: sum.splits)
  have abi: "getABI (abiBinProvider (oThis s1)) THMasterCopyContractName =
      getABI (abiBinProvider (oThis s2)) THMasterCopyContractName"
    by (simp add: getABI_def assms(2))
  show "fst (getTokenHolderSetupExecutableData owner sessionKeys limits heights s1) =
      fst (getTokenHolderSetupExecutableData owner sessionKeys limits heights s2)"
  proof (cases "getABI (abiBinProvider (oThis s2)) THMasterCopyContractName")
    case (Inl e)
    with abi show ?thesis
      by (simp add: getTokenHolderSetupExecutableData_run)
  next
    case (Inr thMasterCopyAbi)
    with abi methods_then_encodeABI_sha3 [OF assms(1), of thMasterCopyAbi
        "tokenHolderMasterCopy (oThis s1)" "''setup''" _ "tokenHolderMasterCopy (oThis s2)"]
    show ?thesis
      by (simp add: getTokenHolderSetupExecutableData_run assms(3,4))
  qed
  show "fst (getTokenHolderSetupExecutableData owner sessionKeys limits heights s1) =
      (case getABI (abiBinProvider (oThis s1)) THMasterCopyContractName of
         Inl e \<Rightarrow> Raises e
       | Inr thMasterCopyAbi \<Rightarrow>
           (case methods
                (Contract_new (auxiliaryWeb3 (oThis s1)) thMasterCopyAbi
                   (tokenHolderMasterCopy (oThis s1)))
                ''setup''
                [JsAddress (eip20Token (oThis s1)), JsAddress (tokenRules (oThis s1)), owner,
                 sessionKeys, limits, heights] of
              Inl e \<Rightarrow> Raises e
            | Inr setupCall \<Rightarrow>
                (case encodeABI setupCall of
                   Inl e \<Rightarrow> Raises e
                 | Inr callData \<Rightarrow> Returns callData)))"
    by (rule getTokenHolderSetupExecutableData_run)
  show "\<exists>typedData.
       fst (getSafeTxData safeTo val safeData operation txGas dataGas price token receiver
              nonce g1) = Returns typedData \<and>
       fst (getSafeTxData safeTo val safeData operation txGas dataGas price token receiver
              nonce g2) = Returns typedData \<and>
       verifyingContract typedData = gnosisSafeProxy (oThis g1) \<and>
       message typedData =
         \<lparr>safe_to = safeTo, safe_value = val, safe_data = safeData,
          safe_operation = operation, safeTxGas = txGas, baseGas = dataGas,
          safe_gasPrice = price, gasToken = token, refundReceiver = receiver,
          safe_nonce = nonce\<rparr> \<and>
       structHash (safe_web3 (oThis g1)) typedData =
         structHash (safe_web3 (oThis g2)) typedData"
    using assms(5) structHash_sha3 [OF assms(6)]
    by (simp add: getSafeTxData_run)
qed

theorem encoding_deterministic_witness:
  "gnosisSafeMasterCopy (oThis (exampleState miningNode)) \<noteq>
     gnosisSafeMasterCopy (oThis unrelatedState) \<and>
   tokenHolderMasterCopy (oThis (exampleState miningNode)) \<noteq>
     tokenHolderMasterCopy (oThis unrelatedState) \<and>
   requests (exampleState miningNode) \<noteq> requests unrelatedState \<and>
   (\<exists>callData.
      fst (getGnosisSafeData exampleOwners (JsNumber 1) (JsAddress 0) (JsBytes [])
        (exampleState miningNode)) = Returns callData \<and>
      fst (getGnosisSafeData exampleOwners (JsNumber 1) (JsAddress 0) (JsBytes [])
        unrelatedState) = Returns callData) \<and>
   (\<exists>callData.
      fst (getTokenHolderSetupExecutableData (JsAddress 0xD0) exampleSessionKeys
        exampleSpendingLimits exampleExpirationHeights (exampleState miningNode)) =
        Returns callData \<and>
      fst (getTokenHolderSetupExecutableData (JsAddress 0xD0) exampleSessionKeys
        exampleSpendingLimits exampleExpirationHeights unrelatedState) = Returns callData) \<and>
   (\<exists>typedData.
      fst (getSafeTxData 0x51 0 [] 0 0 0 0 0 0 7 (exampleSafeState [])) = Returns typedData \<and>
      fst (getSafeTxData 0x51 0 [] 0 0 0 0 0 0 7 otherSafeState) = Returns typedData \<and>
      structHash (exampleWeb3 miningNode) typedData =
        structHash (exampleWeb3 rejectingNode) typedData)"
proof -
  let ?s1 = "exampleState miningNode"
  have cfg: "sha3 (auxiliaryWeb3 (oThis ?s1)) = sha3 (auxiliaryWeb3 (oThis unrelatedState))"
    "abi_of (abiBinProvider (oThis ?s1)) THMasterCopyContractName =
      abi_of (abiBinProvider (oThis unrelatedState)) THMasterCopyContractName"
    "eip20Token (oThis ?s1) = eip20Token (oThis unrelatedState)"
    "tokenRules (oThis ?s1) = tokenRules (oThis unrelatedState)"
    "gnosisSafeProxy (oThis (exampleSafeState [])) = gnosisSafeProxy (oThis otherSafeState)"
    "sha3 (safe_web3 (oThis (exampleSafeState []))) = sha3 (safe_web3 (oThis otherSafeState))"
    by (simp_all add: exampleState_def exampleUser_def unrelatedState_def User_new_def
        exampleWeb3_def exampleSafeState_def exampleSafe_def otherSafeState_def)
  have diff: "gnosisSafeMasterCopy (oThis ?s1) \<noteq> gnosisSafeMasterCopy (oThis unrelatedState)"
    "tokenHolderMasterCopy (oThis ?s1) \<noteq> tokenHolderMasterCopy (oThis unrelatedState)"
    "requests ?s1 \<noteq> requests unrelatedState"
    by (simp_all add: exampleState_def exampleUser_def unrelatedState_def User_new_def
        otherState_def)
  obtain g where g: "fst (getGnosisSafeData exampleOwners (JsNumber 1) (JsAddress 0)
      (JsBytes []) ?s1) = Returns g"
    using example_gnosisSafeData by blast
  obtain d where d: "fst (getTokenHolderSetupExecutableData (JsAddress 0xD0)
      exampleSessionKeys exampleSpendingLimits exampleExpirationHeights ?s1) = Returns d"
    using getTokenHolderSetupExecutableData_wellformed [OF example_registry(1) [of miningNode]
        example_encodes(8) example_encodes(5-7)]
    by blast
  note det = encoding_deterministic [OF cfg, of exampleOwners "JsNumber 1" "JsAddress 0"
      "JsBytes []" "JsAddress 0xD0" exampleSessionKeys exampleSpendingLimits
      exampleExpirationHeights "0x51" 0 "[]" 0 0 0 0 0 0 7]
  from det [THEN conjunct1] g have g2:
    "fst (getGnosisSafeData exampleOwners (JsNumber 1) (JsAddress 0) (JsBytes [])
        unrelatedState) = Returns g"
    by simp
  from det [THEN conjunct2, THEN conjunct2, THEN conjunct1] d have d2:
    "fst (getTokenHolderSetupExecutableData (JsAddress 0xD0) exampleSessionKeys
        exampleSpendingLimits exampleExpirationHeights unrelatedState) = Returns d"
    by simp
  from det [THEN conjunct2, THEN conjunct2, THEN conjunct2, THEN conjunct2]
  obtain typedData where
    "fst (getSafeTxData 0x51 0 [] 0 0 0 0 0 0 7 (exampleSafeState [])) = Returns typedData"
    "fst (getSafeTxData 0x51 0 [] 0 0 0 0 0 0 7 otherSafeState) = Returns typedData"
    "structHash (safe_web3 (oThis (exampleSafeState []))) typedData =
      structHash (safe_web3 (oThis otherSafeState)) typedData"
    by blast
  then have td: "\<exists>typedData.
      fst (getSafeTxData 0x51 0 [] 0 0 0 0 0 0 7 (exampleSafeState [])) = Returns typedData \<and>
      fst (getSafeTxData 0x51 0 [] 0 0 0 0 0 0 7 otherSafeState) = Returns typedData \<and>
      structHash (exampleWeb3 miningNode) typedData =
        structHash (exampleWeb3 rejectingNode) typedData"
    by (auto simp: exampleSafeState_def exampleSafe_def otherSafeState_def)
  from diff g g2 d d2 td show ?thesis
    by (intro conjI exI [of _ g] exI [of _ d]) simp_all
qed

text \<open>
  Claim C3. For an array of owner addresses, a threshold within \<open>uint256\<close>, an address
  and a byte string, \<^verbatim>\<open>getGnosisSafeData\<close> returns the ABI encoding of a call to
  \<^verbatim>\<open>setup(address[],uint256,address,bytes)\<close>: the first four bytes of the hash of
  that signature, then the arguments in the order owners, threshold, to, data as 32-byte
  words; the two dynamic arguments stand in the head as their offsets and in the tail
  with their lengths first. The encoded arguments are a multiple of 32 bytes long.
\<close>

theorem getGnosisSafeData_standard_encoding:
  assumes "0 \<le> threshold" and "threshold < 2 ^ 256"
  shows "\<exists>selector encoded.
    fst (getGnosisSafeData (JsArray (map JsAddress owners)) (JsNumber threshold)
           (JsAddress to) (JsBytes data) s) = Returns (selector @ encoded) \<and>
    selector = take 4 (sha3 (auxiliaryWeb3 (oThis s)) ''setup(address[],uint256,address,bytes)'') \<and>
    encoded =
      uint256_word 128 @ uint256_word (nat threshold) @ uint256_word (unat to) @
      uint256_word (160 + 32 * length owners) @
      uint256_word (length owners) @ concat (map (\<lambda>a. uint256_word (unat a)) owners) @
      uint256_word (length data) @ pad_right data \<and>
    length encoded mod 32 = 0 \<and>
    (length (sha3 (auxiliaryWeb3 (oThis s)) ''setup(address[],uint256,address,bytes)'') = 32
       \<longrightarrow> length selector = 4)"
proof (intro exI conjI)
  show "fst (getGnosisSafeData (JsArray (map JsAddress owners)) (JsNumber threshold)
           (JsAddress to) (JsBytes data) s) =
      Returns (take 4 (sha3 (auxiliaryWeb3 (oThis s)) ''setup(address[],uint256,address,bytes)'') @
        (uint256_word 128 @ uint256_word (nat threshold) @ uint256_word (unat to) @
         uint256_word (160 + 32 * length owners) @
         uint256_word (length owners) @ concat (map (\<lambda>a. uint256_word (unat a)) owners) @
         uint256_word (length data) @ pad_right data))"
    by (simp add: getGnosisSafeData_run js_of_def encodeFunctionCall_def
        gnosisSafeSetup_parameters [OF assms] encodeFunctionSignature_def
        gnosisSafeSetup_signature)
  show "length (uint256_word 128 @ uint256_word (nat threshold) @ uint256_word (unat to) @
         uint256_word (160 + 32 * length owners) @
         uint256_word (length owners) @ concat (map (\<lambda>a. uint256_word (unat a)) owners) @
         uint256_word (length data) @ pad_right data) mod 32 = 0"
    by (intro aligned_append aligned_word aligned_words length_pad_right)
  show "length (sha3 (auxiliaryWeb3 (oThis s)) ''setup(address[],uint256,address,bytes)'') = 32
       \<longrightarrow> length (take 4 (sha3 (auxiliaryWeb3 (oThis s))
             ''setup(address[],uint256,address,bytes)'')) = 4"
    by simp
qed simp_all

theorem getGnosisSafeData_standard_encoding_witness:
  "(0::int) \<le> 1 \<and> (1::int) < 2 ^ 256 \<and>
   fst (getGnosisSafeData (JsArray [JsAddress 0xA3, JsAddress 0xA9]) (JsNumber 1)
          (JsAddress 0) (JsBytes [0xAB, 0xCD]) (exampleState miningNode)) =
     Returns ([0x0E, 0xC7, 0x8D, 0x9E] @
       uint256_word 128 @ uint256_word 1 @ uint256_word 0 @ uint256_word 224 @
       uint256_word 2 @ (uint256_word 0xA3 @ uint256_word 0xA9) @
       uint256_word 2 @ ([0xAB, 0xCD] @ replicate 30 0)) \<and>
   length (exampleSha3 ''setup(address[],uint256,address,bytes)'') = 32"
proof -
  have h: "(0::int) \<le> 1" "(1::int) < 2 ^ 256" by simp_all
  have two: "Suc (Suc 0) = 2" by simp
  from getGnosisSafeData_standard_encoding [OF h, of "[0xA3, 0xA9]" 0 "[0xAB, 0xCD]"
      "exampleState miningNode"]
  show ?thesis
    using h
    by (simp add: exampleState_def exampleUser_def User_new_def exampleWeb3_def exampleSha3_def
        pad_right_def two)
qed

text \<open>
  Claim C4. When \<^verbatim>\<open>createUserWallet\<close> returns a receipt, exactly one transaction was
  sent; it goes to \<^verbatim>\<open>userWalletFactoryAddress\<close> and carries the call of the
  factory's \<^verbatim>\<open>createUserWallet\<close> with the arguments gnosisSafeMasterCopy, the
  encoded gnosis setup data, tokenHolderMasterCopy, eip20Token, tokenRules, sessionKeys,
  sessionKeysSpendingLimits, sessionKeysExpirationHeights in this order; the receipt
  returned is the one with which the node mined that transaction.
\<close>

theorem createUserWallet_dispatches_one_transaction:
  assumes "fst (createUserWallet owners threshold to data sessionKeys limits heights options s) =
    Returns txReceipt"
  shows "\<exists>gnosisSafeData tx callData c history.
    fst (getGnosisSafeData owners threshold to data s) = Returns gnosisSafeData \<and>
    fst (createUserWalletRawTx owners threshold to data sessionKeys limits heights s) =
      Returns tx \<and>
    contract_address (parent tx) = userWalletFactoryAddress (oThis s) \<and>
    name (abi_method tx) = ''createUserWallet'' \<and>
    arguments tx =
      [JsAddress (gnosisSafeMasterCopy (oThis s)), JsBytes gnosisSafeData,
       JsAddress (tokenHolderMasterCopy (oThis s)), JsAddress (eip20Token (oThis s)),
       JsAddress (tokenRules (oThis s)), sessionKeys, limits, heights] \<and>
    encodeABI tx = Inr callData \<and>
    requests (snd (createUserWallet owners threshold to data sessionKeys limits heights
      options s)) = history @ [EthSendTransaction c] \<and>
    sentTransactions history = sentTransactions (requests s) \<and>
    sentTransactions (requests (snd (createUserWallet owners threshold to data sessionKeys
      limits heights options s))) = sentTransactions (requests s) @ [c] \<and>
    call_to c = userWalletFactoryAddress (oThis s) \<and>
    call_data c = callData \<and>
    sendTransaction (currentProvider (auxiliaryWeb3 (oThis s))) history c = Mined txReceipt \<and>
    status txReceipt"
proof -
  let ?call = "createUserWallet owners threshold to data sessionKeys limits heights options s"
  let ?raw = "createUserWalletRawTx owners threshold to data sessionKeys limits heights s"
  from assms obtain tx where raw: "fst ?raw = Returns tx"
    by (cases "fst ?raw") (simp_all add: createUserWallet_run)
  then have run: "?call = TxSender_execute (TxSender_new tx (auxiliaryWeb3 (oThis s)) options) s"
    by (simp add: createUserWallet_run)
  obtain callData where enc: "encodeABI tx = Inr callData"
  proof (cases "encodeABI tx")
    case (Inl e)
    then have "?call = (Raises e, s)"
      by (simp add: run TxSender_execute_encoding_error TxSender_new_def)
    with assms show ?thesis by simp
  next
    case (Inr callData)
    then show ?thesis by (rule that)
  qed
  from raw obtain g jsonInterface where
    g: "encodeFunctionCall (auxiliaryWeb3 (oThis s)) gnosisSafeSetupInterface
          [owners, threshold, to, data] = Inr g"
    and m: "methods
        (Contract_new (auxiliaryWeb3 (oThis s)) jsonInterface (userWalletFactoryAddress (oThis s)))
        ''createUserWallet''
        [JsAddress (gnosisSafeMasterCopy (oThis s)), JsBytes g,
         JsAddress (tokenHolderMasterCopy (oThis s)), JsAddress (eip20Token (oThis s)),
         JsAddress (tokenRules (oThis s)), sessionKeys, limits, heights] = Inr tx"
    by (auto simp: createUserWalletRawTx_run split: sum.splits)
  from sender_submits [OF enc, of "auxiliaryWeb3 (oThis s)" options s] obtain c history where
    st: "snd ?call = s\<lparr>requests := history @ [EthSendTransaction c]\<rparr>"
    and h: "sentTransactions history = sentTransactions (requests s)"
    and cto: "call_to c = contract_address (parent tx)"
    and cd: "call_data c = callData"
    and out: "fst ?call =
        (case sendTransaction (currentProvider (auxiliaryWeb3 (oThis s))) history c of
           Rejected msg \<Rightarrow> Raises (SubmissionError msg)
         | Mined r \<Rightarrow> if status r then Returns r else Raises (RevertError r)
         | NeverMined \<Rightarrow> Pending)"
    unfolding run by blast
  from methods_Inr [OF m] have
    p: "contract_address (parent tx) = userWalletFactoryAddress (oThis s)"
    and n: "name (abi_method tx) = ''createUserWallet''"
    and a: "arguments tx =
      [JsAddress (gnosisSafeMasterCopy (oThis s)), JsBytes g,
       JsAddress (tokenHolderMasterCopy (oThis s)), JsAddress (eip20Token (oThis s)),
       JsAddress (tokenRules (oThis s)), sessionKeys, limits, heights]"
    by (simp_all add: Contract_new_def)
  from out assms have
    mined: "sendTransaction (currentProvider (auxiliaryWeb3 (oThis s))) history c = Mined txReceipt"
    and ok: "status txReceipt"
    by (auto split: node_reply.splits if_splits)
  show ?thesis
  proof (intro exI conjI)
    show "fst (getGnosisSafeData owners threshold to data s) = Returns g"
      by (simp add: getGnosisSafeData_run js_of_def g)
    show "fst ?raw = Returns tx" by (rule raw)
    show "contract_address (parent tx) = userWalletFactoryAddress (oThis s)" by (rule p)
    show "name (abi_method tx) = ''createUserWallet''" by (rule n)
    show "arguments tx =
      [JsAddress (gnosisSafeMasterCopy (oThis s)), JsBytes g,
       JsAddress (tokenHolderMasterCopy (oThis s)), JsAddress (eip20Token (oThis s)),
       JsAddress (tokenRules (oThis s)), sessionKeys, limits, heights]" by (rule a)
    show "encodeABI tx = Inr callData" by (rule enc)
    show "requests (snd ?call) = history @ [EthSendTransaction c]" by (simp add: st)
    show "sentTransactions history = sentTransactions (requests s)" by (rule h)
    show "sentTransactions (requests (snd ?call)) = sentTransactions (requests s) @ [c]"
      by (simp add: st sentTransactions_append h)
    show "call_to c = userWalletFactoryAddress (oThis s)" by (simp add: cto p)
    show "call_data c = callData" by (rule cd)
    show "sendTransaction (currentProvider (auxiliaryWeb3 (oThis s))) history c =
        Mined txReceipt" by (rule mined)
    show "status txReceipt" by (rule ok)
  qed
qed

theorem createUserWallet_dispatches_one_transaction_witness:
  "fst (createUserWallet exampleOwners (JsNumber 1) (JsAddress 0) (JsBytes [])
      exampleSessionKeys exampleSpendingLimits exampleExpirationHeights exampleOptions
      (exampleState miningNode)) = Returns minedReceipt \<and>
   (\<exists>c. sentTransactions (requests (snd (createUserWallet exampleOwners (JsNumber 1)
      (JsAddress 0) (JsBytes []) exampleSessionKeys exampleSpendingLimits
      exampleExpirationHeights exampleOptions (exampleState miningNode)))) = [c] \<and>
      call_to c = 0x15) \<and>
   status minedReceipt"
proof -
  from createUserWallet_dispatches_one_transaction [OF example_createUserWallet]
  obtain c where
    "sentTransactions (requests (snd (createUserWallet exampleOwners (JsNumber 1)
      (JsAddress 0) (JsBytes []) exampleSessionKeys exampleSpendingLimits
      exampleExpirationHeights exampleOptions (exampleState miningNode)))) =
      sentTransactions (requests (exampleState miningNode)) @ [c]"
    "call_to c = userWalletFactoryAddress (oThis (exampleState miningNode))"
    "status minedReceipt"
    by blast
  with example_createUserWallet show ?thesis
    by (simp add: exampleState_def exampleUser_def User_new_def)
qed

text \<open>
  Claim C5. For an owner list without repetitions that does not hold the sentinel, and
  an owner at position \<open>i\<close> of it, \<^verbatim>\<open>findPreviousOwner\<close> returns the sentinel when
  \<open>i = 0\<close> and the owner at position \<open>i - 1\<close> otherwise; in the on-chain linked list
  the successor of the address returned is that owner.
\<close>

theorem findPreviousOwner_predecessor:
  assumes "distinct (sentinelOwner (oThis s) # owners)" and "i < length owners"
  shows "findPreviousOwner owners (owners ! i) s =
      (Returns (if i = 0 then sentinelOwner (oThis s) else owners ! (i - 1)), s) \<and>
    ownerLinks (sentinelOwner (oThis s)) (sentinelOwner (oThis s)) owners
      (if i = 0 then sentinelOwner (oThis s) else owners ! (i - 1)) = Some (owners ! i)"
proof
  from assms have "distinct owners" by simp
  from previousOwnerFrom_nth [OF this assms(2), of "sentinelOwner (oThis s)"]
  show "findPreviousOwner owners (owners ! i) s =
      (Returns (if i = 0 then sentinelOwner (oThis s) else owners ! (i - 1)), s)"
    by (simp add: findPreviousOwner_def js_defs)
  from ownerLinks_nth [OF assms]
  show "ownerLinks (sentinelOwner (oThis s)) (sentinelOwner (oThis s)) owners
      (if i = 0 then sentinelOwner (oThis s) else owners ! (i - 1)) = Some (owners ! i)" .
qed

theorem findPreviousOwner_predecessor_witness:
  "findPreviousOwner [0xA3, 0xA9, 0xA7] 0xA9 (exampleSafeState []) =
     (Returns 0xA3, exampleSafeState []) \<and>
   ownerLinks 0x1 0x1 [0xA3, 0xA9, 0xA7] 0xA3 = Some 0xA9 \<and>
   findPreviousOwner [0xA3, 0xA9, 0xA7] 0xA3 (exampleSafeState []) =
     (Returns 0x1, exampleSafeState []) \<and>
   ownerLinks 0x1 0x1 [0xA3, 0xA9, 0xA7] 0x1 = Some 0xA3"
proof -
  have d: "distinct (sentinelOwner (oThis (exampleSafeState [])) # [0xA3, 0xA9, 0xA7])"
    by (simp add: exampleSafeState_def exampleSafe_def)
  have i1: "(1::nat) < length [0xA3, 0xA9, 0xA7 :: address]"
    and i0: "(0::nat) < length [0xA3, 0xA9, 0xA7 :: address]"
    by simp_all
  from findPreviousOwner_predecessor [OF d i1] findPreviousOwner_predecessor [OF d i0]
  show ?thesis
    by (simp add: exampleSafeState_def exampleSafe_def)
qed

text \<open>
  Claim C6. An invocation of the sender on a transaction object that encodes appends
  exactly one transaction to the requests sent. It raises \<^verbatim>\<open>SubmissionError\<close> exactly
  when the node rejects that transaction, raises \<^verbatim>\<open>RevertError\<close> exactly when the
  node mines it with a receipt whose status is false, returns the receipt exactly when
  the status is true, and stays pending exactly when the node never mines it.
\<close>

theorem TxSender_one_submission_one_outcome:
  assumes "encodeABI (txObject t) = Inr callData"
  shows "\<exists>c history.
    requests (snd (TxSender_execute t s)) = history @ [EthSendTransaction c] \<and>
    sentTransactions history = sentTransactions (requests s) \<and>
    sentTransactions (requests (snd (TxSender_execute t s))) =
      sentTransactions (requests s) @ [c] \<and>
    call_data c = callData \<and>
    (\<forall>msg. fst (TxSender_execute t s) = Raises (SubmissionError msg) \<longleftrightarrow>
       sendTransaction (currentProvider (sender_web3 t)) history c = Rejected msg) \<and>
    (\<forall>r. fst (TxSender_execute t s) = Raises (RevertError r) \<longleftrightarrow>
       sendTransaction (currentProvider (sender_web3 t)) history c = Mined r \<and> \<not> status r) \<and>
    (\<forall>r. fst (TxSender_execute t s) = Returns r \<longleftrightarrow>
       sendTransaction (currentProvider (sender_web3 t)) history c = Mined r \<and> status r) \<and>
    (fst (TxSender_execute t s) = Pending \<longleftrightarrow>
       sendTransaction (currentProvider (sender_web3 t)) history c = NeverMined)"
proof -
  from TxSender_execute_sent [OF assms, of s] obtain c history where
    st: "snd (TxSender_execute t s) = s\<lparr>requests := history @ [EthSendTransaction c]\<rparr>"
    and h: "sentTransactions history = sentTransactions (requests s)"
    and d: "call_data c = callData"
    and r: "fst (TxSender_execute t s) =
        (case sendTransaction (currentProvider (sender_web3 t)) history c of
           Rejected msg \<Rightarrow> Raises (SubmissionError msg)
         | Mined r \<Rightarrow> if status r then Returns r else Raises (RevertError r)
         | NeverMined \<Rightarrow> Pending)"
    by blast
  show ?thesis
  proof (intro exI conjI)
    show "requests (snd (TxSender_execute t s)) = history @ [EthSendTransaction c]"
      by (simp add: st)
    show "sentTransactions history = sentTransactions (requests s)" by (rule h)
    show "sentTransactions (requests (snd (TxSender_execute t s))) =
        sentTransactions (requests s) @ [c]"
      by (simp add: st sentTransactions_append h)
    show "call_data c = callData" by (rule d)
    show "\<forall>msg. fst (TxSender_execute t s) = Raises (SubmissionError msg) \<longleftrightarrow>
        sendTransaction (currentProvider (sender_web3 t)) history c = Rejected msg"
      by (simp add: r split: node_reply.splits)
    show "\<forall>r. fst (TxSender_execute t s) = Raises (RevertError r) \<longleftrightarrow>
        sendTransaction (currentProvider (sender_web3 t)) history c = Mined r \<and> \<not> status r"
      by (auto simp: r split: node_reply.splits)
    show "\<forall>r. fst (TxSender_execute t s) = Returns r \<longleftrightarrow>
        sendTransaction (currentProvider (sender_web3 t)) history c = Mined r \<and> status r"
      by (auto simp: r split: node_reply.splits)
    show "fst (TxSender_execute t s) = Pending \<longleftrightarrow>
        sendTransaction (currentProvider (sender_web3 t)) history c = NeverMined"
      by (simp add: r split: node_reply.splits)
  qed
qed

theorem TxSender_one_submission_one_outcome_witness:
  "\<exists>callData c.
     encodeABI exampleTx = Inr callData \<and>
     sentTransactions (requests (snd (TxSender_execute
        (TxSender_new exampleTx (exampleWeb3 rejectingNode) exampleOptions)
        (exampleState rejectingNode)))) = [c] \<and>
     call_data c = callData \<and>
     fst (TxSender_execute (TxSender_new exampleTx (exampleWeb3 rejectingNode) exampleOptions)
        (exampleState rejectingNode)) = Raises (SubmissionError ''insufficient funds'')"
proof -
  obtain callData where enc: "encodeABI exampleTx = Inr callData"
    using exampleTx_encodes by blast
  then have enc': "encodeABI (txObject (TxSender_new exampleTx (exampleWeb3 rejectingNode)
      exampleOptions)) = Inr callData"
    by (simp add: TxSender_new_def)
  from TxSender_one_submission_one_outcome [OF enc', of "exampleState rejectingNode"]
  obtain c history where
    "sentTransactions (requests (snd (TxSender_execute
        (TxSender_new exampleTx (exampleWeb3 rejectingNode) exampleOptions)
        (exampleState rejectingNode)))) = sentTransactions (requests (exampleState rejectingNode)) @ [c]"
    "call_data c = callData"
    "\<forall>msg. fst (TxSender_execute (TxSender_new exampleTx (exampleWeb3 rejectingNode) exampleOptions)
        (exampleState rejectingNode)) = Raises (SubmissionError msg) \<longleftrightarrow>
       sendTransaction (currentProvider (sender_web3 (TxSender_new exampleTx
          (exampleWeb3 rejectingNode) exampleOptions))) history c = Rejected msg"
    by blast
  then have
    "sentTransactions (requests (snd (TxSender_execute
        (TxSender_new exampleTx (exampleWeb3 rejectingNode) exampleOptions)
        (exampleState rejectingNode)))) = [c]"
    "call_data c = callData"
    "fst (TxSender_execute (TxSender_new exampleTx (exampleWeb3 rejectingNode) exampleOptions)
        (exampleState rejectingNode)) = Raises (SubmissionError ''insufficient funds'')"
    by (simp_all add: TxSender_new_def exampleWeb3_def rejectingNode_def exampleState_def)
  with enc show ?thesis by blast
qed

text \<open>
  Claim C8, as the code has it. The sender comes last in both methods, but the registry
  is not always resolved before anything is encoded. \<^verbatim>\<open>createUserWallet\<close> encodes
  the Safe setup data, then resolves the UserWalletFactory interface, then builds the
  call, whose call data is encoded before it is sent. \<^verbatim>\<open>createCompanyWallet\<close>
  resolves the TokenHolder interface, encodes the TokenHolder setup data, then resolves
  the ProxyFactory interface, then builds the call, whose call data is encoded before it
  is sent. The first step that throws ends the method with its error in the state in which
  the method started, so that no request was issued; and when a request was issued, every
  interface had been resolved and the call data that was sent had been encoded.
\<close>

theorem facade_steps_in_order:
  "createUserWallet owners threshold to data sessionKeys limits heights options s =
     (case encodeFunctionCall (auxiliaryWeb3 (oThis s)) gnosisSafeSetupInterface
             [owners, threshold, to, data] of
        Inl e \<Rightarrow> (Raises e, s)
      | Inr gnosisSafeData \<Rightarrow>
          (case getABI (abiBinProvider (oThis s)) UserWalletFactoryContractName of
             Inl e \<Rightarrow> (Raises e, s)
           | Inr jsonInterface \<Rightarrow>
               (case methods
                    (Contract_new (auxiliaryWeb3 (oThis s)) jsonInterface
                       (userWalletFactoryAddress (oThis s)))
                    ''createUserWallet''
                    [JsAddress (gnosisSafeMasterCopy (oThis s)), JsBytes gnosisSafeData,
                     JsAddress (tokenHolderMasterCopy (oThis s)), JsAddress (eip20Token (oThis s)),
                     JsAddress (tokenRules (oThis s)), sessionKeys, limits, heights] of
                  Inl e \<Rightarrow> (Raises e, s)
                | Inr tx \<Rightarrow>
                    (case encodeABI tx of
                       Inl e \<Rightarrow> (Raises e, s)
                     | Inr callData \<Rightarrow>
                         TxSender_execute
                           (TxSender_new tx (auxiliaryWeb3 (oThis s)) options) s)))) \<and>
   createCompanyWallet proxyFactory owner sessionKeys limits heights options s =
     (case getABI (abiBinProvider (oThis s)) THMasterCopyContractName of
        Inl e \<Rightarrow> (Raises e, s)
      | Inr thMasterCopyAbi \<Rightarrow>
          (case methods
               (Contract_new (auxiliaryWeb3 (oThis s)) thMasterCopyAbi
                  (tokenHolderMasterCopy (oThis s)))
               ''setup''
               [JsAddress (eip20Token (oThis s)), JsAddress (tokenRules (oThis s)), owner,
                sessionKeys, limits, heights] of
             Inl e \<Rightarrow> (Raises e, s)
           | Inr setupCall \<Rightarrow>
               (case encodeABI setupCall of
                  Inl e \<Rightarrow> (Raises e, s)
                | Inr thSetupExecutableData \<Rightarrow>
                    (case getABI (abiBinProvider (oThis s)) ProxyFactoryContractName of
                       Inl e \<Rightarrow> (Raises e, s)
                     | Inr jsonInterface \<Rightarrow>
                         (case methods
                              (Contract_new (auxiliaryWeb3 (oThis s)) jsonInterface proxyFactory)
                              ''createProxy''
                              [JsAddress (tokenHolderMasterCopy (oThis s)),
                               JsBytes thSetupExecutableData] of
                            Inl e \<Rightarrow> (Raises e, s)
                          | Inr tx \<Rightarrow>
                              (case encodeABI tx of
                                 Inl e \<Rightarrow> (Raises e, s)
                               | Inr callData \<Rightarrow>
                                   TxSender_execute
                                     (TxSender_new tx (auxiliaryWeb3 (oThis s)) options)
                                     s)))))) \<and>
   (requests (snd (createUserWallet owners threshold to data sessionKeys limits heights
        options s)) \<noteq> requests s \<longrightarrow>
      (\<exists>jsonInterface tx callData c history.
         getABI (abiBinProvider (oThis s)) UserWalletFactoryContractName = Inr jsonInterface \<and>
         fst (createUserWalletRawTx owners threshold to data sessionKeys limits heights s) =
           Returns tx \<and>
         abi_method tx \<in> set jsonInterface \<and>
         encodeABI tx = Inr callData \<and>
         requests (snd (createUserWallet owners threshold to data sessionKeys limits heights
           options s)) = history @ [EthSendTransaction c] \<and>
         call_data c = callData)) \<and>
   (requests (snd (createCompanyWallet proxyFactory owner sessionKeys limits heights
        options s)) \<noteq> requests s \<longrightarrow>
      (\<exists>thMasterCopyAbi thSetupData jsonInterface tx callData c history.
         getABI (abiBinProvider (oThis s)) THMasterCopyContractName = Inr thMasterCopyAbi \<and>
         fst (getTokenHolderSetupExecutableData owner sessionKeys limits heights s) =
           Returns thSetupData \<and>
         getABI (abiBinProvider (oThis s)) ProxyFactoryContractName = Inr jsonInterface \<and>
         fst (createCompanyWalletRawTx proxyFactory owner sessionKeys limits heights s) =
           Returns tx \<and>
         abi_method tx \<in> set jsonInterface \<and>
         encodeABI tx = Inr callData \<and>
         requests (snd (createCompanyWallet proxyFactory owner sessionKeys limits heights
           options s)) = history @ [EthSendTransaction c] \<and>
         call_data c = callData))"
  by (intro conjI impI createUserWallet_steps createCompanyWallet_steps
      createUserWallet_dispatched createCompanyWallet_dispatched)

theorem facade_steps_in_order_witness:
  "createUserWallet exampleOwners (JsNumber 1) (JsAddress 0) (JsBytes []) exampleSessionKeys
      exampleSpendingLimits exampleExpirationHeights exampleOptions emptyRegistryState =
     (Raises (NotFoundError ''UserWalletFactory''), emptyRegistryState) \<and>
   createUserWallet exampleOwners (JsNumber 1) (JsBytes []) (JsBytes [])
      exampleSessionKeys exampleSpendingLimits exampleExpirationHeights exampleOptions
      (exampleState miningNode) =
     (Raises (ValidationError ''invalid value for type''), exampleState miningNode) \<and>
   createUserWallet exampleOwners (JsNumber 1) (JsAddress 0) (JsBytes []) (JsNumber 5)
      exampleSpendingLimits exampleExpirationHeights exampleOptions (exampleState miningNode) =
     (Raises (ValidationError ''invalid value for type''), exampleState miningNode) \<and>
   createCompanyWallet 0x16 (JsAddress 0xD0) exampleSessionKeys exampleSpendingLimits
      exampleExpirationHeights exampleOptions emptyRegistryState =
     (Raises (NotFoundError ''TokenHolder''), emptyRegistryState) \<and>
   (\<exists>jsonInterface callData c history.
      getABI (abiBinProvider (oThis (exampleState miningNode))) UserWalletFactoryContractName =
        Inr jsonInterface \<and>
      requests (snd (createUserWallet exampleOwners (JsNumber 1) (JsAddress 0) (JsBytes [])
        exampleSessionKeys exampleSpendingLimits exampleExpirationHeights exampleOptions
        (exampleState miningNode))) = history @ [EthSendTransaction c] \<and>
      call_data c = callData)"
proof (intro conjI)
  obtain g where g: "encodeFunctionCall (auxiliaryWeb3 (oThis emptyRegistryState))
      gnosisSafeSetupInterface [exampleOwners, JsNumber 1, JsAddress 0, JsBytes []] = Inr g"
    using example_setup_encoding by blast
  from facade_steps_in_order [THEN conjunct1, of exampleOwners "JsNumber 1" "JsAddress 0"
      "JsBytes []" exampleSessionKeys exampleSpendingLimits exampleExpirationHeights
      exampleOptions emptyRegistryState]
  show "createUserWallet exampleOwners (JsNumber 1) (JsAddress 0) (JsBytes [])
      exampleSessionKeys exampleSpendingLimits exampleExpirationHeights exampleOptions
      emptyRegistryState = (Raises (NotFoundError ''UserWalletFactory''), emptyRegistryState)"
    by (simp add: g example_getABI)
next
  from facade_steps_in_order [THEN conjunct1, of exampleOwners "JsNumber 1" "JsBytes []"
      "JsBytes []" exampleSessionKeys exampleSpendingLimits exampleExpirationHeights
      exampleOptions "exampleState miningNode"]
  show "createUserWallet exampleOwners (JsNumber 1) (JsBytes []) (JsBytes [])
      exampleSessionKeys exampleSpendingLimits exampleExpirationHeights exampleOptions
      (exampleState miningNode) =
     (Raises (ValidationError ''invalid value for type''), exampleState miningNode)"
    by (simp add: bad_to_encoding)
next
  let ?s = "exampleState miningNode"
  obtain g where g: "encodeFunctionCall (auxiliaryWeb3 (oThis ?s))
      gnosisSafeSetupInterface [exampleOwners, JsNumber 1, JsAddress 0, JsBytes []] = Inr g"
    using example_setup_encoding by blast
  from facade_steps_in_order [THEN conjunct1, of exampleOwners "JsNumber 1" "JsAddress 0"
      "JsBytes []" "JsNumber 5" exampleSpendingLimits exampleExpirationHeights
      exampleOptions ?s]
  show "createUserWallet exampleOwners (JsNumber 1) (JsAddress 0) (JsBytes []) (JsNumber 5)
      exampleSpendingLimits exampleExpirationHeights exampleOptions ?s =
     (Raises (ValidationError ''invalid value for type''), ?s)"
    by (simp add: g example_getABI userWalletFactory_methods bad_session_keys_encoding)
next
  from facade_steps_in_order [THEN conjunct2, THEN conjunct1, of "0x16" "JsAddress 0xD0"
      exampleSessionKeys exampleSpendingLimits exampleExpirationHeights exampleOptions
      emptyRegistryState]
  show "createCompanyWallet 0x16 (JsAddress 0xD0) exampleSessionKeys exampleSpendingLimits
      exampleExpirationHeights exampleOptions emptyRegistryState =
     (Raises (NotFoundError ''TokenHolder''), emptyRegistryState)"
    by (simp add: example_getABI)
next
  let ?s = "exampleState miningNode"
  let ?call = "createUserWallet exampleOwners (JsNumber 1) (JsAddress 0) (JsBytes [])
      exampleSessionKeys exampleSpendingLimits exampleExpirationHeights exampleOptions ?s"
  from createUserWallet_wellformed_run [OF example_registry(1) [of miningNode]
      example_encodes(1-7), where options = exampleOptions]
  obtain c history where
    "snd ?call = ?s\<lparr>requests := history @ [EthSendTransaction c]\<rparr>"
    by blast
  then have changed: "requests (snd ?call) \<noteq> requests ?s"
    by (simp add: exampleState_def)
  from facade_steps_in_order [THEN conjunct2, THEN conjunct2, THEN conjunct1, THEN mp,
      OF changed]
  show "\<exists>jsonInterface callData c history.
      getABI (abiBinProvider (oThis ?s)) UserWalletFactoryContractName = Inr jsonInterface \<and>
      requests (snd ?call) = history @ [EthSendTransaction c] \<and>
      call_data c = callData"
    by blast
qed

text \<open>
  The order that the specification states fails. With a registry that holds no contract
  and an address \<^verbatim>\<open>to\<close> that is no address, \<^verbatim>\<open>createUserWallet\<close> ends with the
  error of the encoder and not with the \<^verbatim>\<open>NotFoundError\<close> of the registry: the Safe
  setup data is encoded before the interface is resolved. With a registry that holds the
  TokenHolder interface only and an owner that is no address,
  \<^verbatim>\<open>createCompanyWallet\<close> ends with the error of the encoder before the ProxyFactory
  interface is looked up.
\<close>

theorem resolve_before_encode_counterexample:
  "getABI (abiBinProvider (oThis emptyRegistryState)) UserWalletFactoryContractName =
     Inl (NotFoundError ''UserWalletFactory'') \<and>
   createUserWallet exampleOwners (JsNumber 1) (JsBytes []) (JsBytes []) exampleSessionKeys
      exampleSpendingLimits exampleExpirationHeights exampleOptions emptyRegistryState =
     (Raises (ValidationError ''invalid value for type''), emptyRegistryState) \<and>
   getABI (abiBinProvider (oThis tokenHolderOnlyState)) ProxyFactoryContractName =
     Inl (NotFoundError ''ProxyFactory'') \<and>
   createCompanyWallet 0x16 (JsBytes []) exampleSessionKeys exampleSpendingLimits
      exampleExpirationHeights exampleOptions tokenHolderOnlyState =
     (Raises (ValidationError ''invalid value for type''), tokenHolderOnlyState)"
proof (intro conjI)
  show "createUserWallet exampleOwners (JsNumber 1) (JsBytes []) (JsBytes [])
      exampleSessionKeys exampleSpendingLimits exampleExpirationHeights exampleOptions
      emptyRegistryState =
     (Raises (ValidationError ''invalid value for type''), emptyRegistryState)"
    by (simp add: createUserWallet_steps bad_to_encoding)
  show "createCompanyWallet 0x16 (JsBytes []) exampleSessionKeys exampleSpendingLimits
      exampleExpirationHeights exampleOptions tokenHolderOnlyState =
     (Raises (ValidationError ''invalid value for type''), tokenHolderOnlyState)"
    by (simp add: createCompanyWallet_steps example_getABI tokenHolder_methods
        bad_owner_encoding)
qed (simp_all add: example_getABI)

text \<open>
  Claim C9. Every method of the User helper (\<^verbatim>\<open>getGnosisSafeData\<close>,
  \<^verbatim>\<open>getTokenHolderSetupExecutableData\<close>, \<^verbatim>\<open>createUserWallet\<close>,
  \<^verbatim>\<open>createCompanyWallet\<close>) leaves the instance as it was: every field that the
  constructor set is unchanged after the call, whatever the outcome.
\<close>

theorem User_methods_leave_configuration:
  "oThis (snd (getGnosisSafeData owners threshold to data s)) = oThis s \<and>
   oThis (snd (getTokenHolderSetupExecutableData owner sessionKeys limits heights s)) = oThis s \<and>
   oThis (snd (createUserWallet owners threshold to data sessionKeys limits heights options s))
     = oThis s \<and>
   oThis (snd (createCompanyWallet proxyFactory owner sessionKeys limits heights options s))
     = oThis s"
  by (simp add: getGnosisSafeData_state getTokenHolderSetupExecutableData_state
      createUserWallet_oThis createCompanyWallet_oThis)

theorem User_methods_leave_configuration_witness:
  "oThis (snd (getGnosisSafeData exampleOwners (JsNumber 1) (JsAddress 0) (JsBytes [])
      (exampleState miningNode))) = exampleUser miningNode \<and>
   oThis (snd (getTokenHolderSetupExecutableData (JsAddress 0xD0) exampleSessionKeys
      exampleSpendingLimits exampleExpirationHeights (exampleState miningNode)))
     = exampleUser miningNode \<and>
   oThis (snd (createUserWallet exampleOwners (JsNumber 1) (JsAddress 0) (JsBytes [])
      exampleSessionKeys exampleSpendingLimits exampleExpirationHeights exampleOptions
      (exampleState miningNode))) = exampleUser miningNode \<and>
   oThis (snd (createCompanyWallet 0x16 (JsAddress 0xD0) exampleSessionKeys
      exampleSpendingLimits exampleExpirationHeights exampleOptions (exampleState miningNode)))
     = exampleUser miningNode"
  using User_methods_leave_configuration [of exampleOwners "JsNumber 1" "JsAddress 0"
      "JsBytes []" "exampleState miningNode" "JsAddress 0xD0" exampleSessionKeys
      exampleSpendingLimits exampleExpirationHeights exampleOptions "0x16"]
  by (simp add: exampleState_def)



end
